theory Spec2Isabelle
  imports Complex_Main
begin

section \<open>Numbers, errors and JavaScript idioms\<close>

text \<open>
  The module \<^verbatim>\<open>src/analytics.js\<close> (class \<^verbatim>\<open>TGTrafficAnalytics\<close>) computes with
  JavaScript numbers. The numbers of the inputs are modelled as \<^typ>\<open>real\<close>: exact
  arithmetic on finite values, without the infinities and binary rounding. A property
  that is read as \<^verbatim>\<open>undefined\<close> or \<^verbatim>\<open>null\<close> is \<open>None\<close>.

  On such inputs the module produces \<^verbatim>\<open>NaN\<close> in two ways, and both are modelled: a
  lookup in one of its plain-object tables with a key that names a member inherited from
  \<^verbatim>\<open>Object.prototype\<close> returns that member, which is truthy and not a number; and the
  averages of \<^verbatim>\<open>compareChannels\<close> on an empty batch divide zero by zero. The numbers
  that these can reach have the type \<open>js_number\<close>.
\<close>

text \<open>A \<^verbatim>\<open>TypeError\<close> is what reading a property of \<^verbatim>\<open>undefined\<close> or \<^verbatim>\<open>null\<close> throws.\<close>

datatype js_error = TypeError

text \<open>A number that may be \<^verbatim>\<open>NaN\<close>.\<close>

datatype js_number = Num real | NaN

text \<open>
  Arithmetic in one or two operands that may be \<^verbatim>\<open>NaN\<close>: the operators \<^verbatim>\<open>+\<close>,
  \<^verbatim>\<open>-\<close>, \<^verbatim>\<open>*\<close>, \<^verbatim>\<open>/\<close> and \<^verbatim>\<open>Math.min\<close>, \<^verbatim>\<open>Math.max\<close>, \<^verbatim>\<open>Math.round\<close> all return
  \<^verbatim>\<open>NaN\<close> when an operand is \<^verbatim>\<open>NaN\<close>.
\<close>

fun arith :: "(real \<Rightarrow> real) \<Rightarrow> js_number \<Rightarrow> js_number" where
  "arith f (Num x) = Num (f x)"
| "arith f NaN = NaN"

fun arith2 :: "(real \<Rightarrow> real \<Rightarrow> real) \<Rightarrow> js_number \<Rightarrow> js_number \<Rightarrow> js_number" where
  "arith2 f (Num x) (Num y) = Num (f x y)"
| "arith2 f NaN y = NaN"
| "arith2 f x NaN = NaN"

text \<open>The comparison \<^verbatim>\<open>v >= c\<close>: false when \<open>v\<close> is \<^verbatim>\<open>NaN\<close>.\<close>

fun num_ge :: "js_number \<Rightarrow> real \<Rightarrow> bool" where
  "num_ge (Num x) c = (x \<ge> c)"
| "num_ge NaN c = False"

text \<open>
  The value of a property read from a table of numbers: a number, or a member inherited
  from \<^verbatim>\<open>Object.prototype\<close> (a function, or the prototype object itself for
  \<^verbatim>\<open>__proto__\<close>). In arithmetic such a member converts to \<^verbatim>\<open>NaN\<close>.
\<close>

datatype js_value = Number real | Inherited

fun toNumber :: "js_value \<Rightarrow> js_number" where
  "toNumber (Number x) = Num x"
| "toNumber Inherited = NaN"

text \<open>The names that every plain object inherits from \<^verbatim>\<open>Object.prototype\<close>.\<close>

definition objectPrototypeKeys :: "string list" where
  "objectPrototypeKeys =
     [''constructor'', ''__defineGetter__'', ''__defineSetter__'', ''hasOwnProperty'',
      ''__lookupGetter__'', ''__lookupSetter__'', ''isPrototypeOf'',
      ''propertyIsEnumerable'', ''toString'', ''valueOf'', ''__proto__'',
      ''toLocaleString'']"

text \<open>
  \<^verbatim>\<open>table[key] || d\<close> for an object literal \<open>table\<close> of numbers: an own key with a
  truthy number gives that number; otherwise the prototype chain is searched, and an
  inherited member is truthy; otherwise the default.
\<close>

definition lookup_or :: "(string \<rightharpoonup> real) \<Rightarrow> string \<Rightarrow> real \<Rightarrow> js_value" where
  "lookup_or table key d =
     (case table key of
        Some v \<Rightarrow> if v = 0 then Number d else Number v
      | None \<Rightarrow> if key \<in> set objectPrototypeKeys then Inherited else Number d)"

text \<open>\<^verbatim>\<open>Math.round\<close> rounds to the nearest integer, halves towards plus infinity.\<close>

definition Math_round :: "real \<Rightarrow> real" where
  "Math_round x = of_int \<lfloor>x + 1 / 2\<rfloor>"

definition Math_log10 :: "real \<Rightarrow> real" where
  "Math_log10 x = log 10 x"

text \<open>
  \<^verbatim>\<open>v || d\<close> for an optional number \<open>v\<close> and a number \<open>d\<close>: \<^verbatim>\<open>undefined\<close> and \<open>0\<close>
  are falsy.
\<close>

definition or_num :: "real option \<Rightarrow> real \<Rightarrow> real" where
  "or_num v d = (case v of None \<Rightarrow> d | Some x \<Rightarrow> if x = 0 then d else x)"

text \<open>\<^verbatim>\<open>s || d\<close> for an optional string: \<^verbatim>\<open>undefined\<close> and the empty string are falsy.\<close>

definition or_str :: "string option \<Rightarrow> string \<Rightarrow> string" where
  "or_str s d = (case s of None \<Rightarrow> d | Some x \<Rightarrow> if x = [] then d else x)"

text \<open>\<^verbatim>\<open>b || false\<close> for an optional boolean.\<close>

definition or_false :: "bool option \<Rightarrow> bool" where
  "or_false b = (case b of None \<Rightarrow> False | Some x \<Rightarrow> x)"

section \<open>Data model\<close>

text \<open>The raw channel record (\<^verbatim>\<open>channelData\<close>) and the period statistics (\<^verbatim>\<open>statsData\<close>).\<close>

record ChannelSnapshot =
  username :: "string option"
  title :: "string option"
  description :: "string option"
  participants_count :: "real option"
  category :: "string option"
  verified :: "bool option"
  language :: "string option"
  avg_post_reach :: "real option"
  ci_index :: "real option"
  err_percent :: "real option"

record PeriodStats =
  posts_count :: "real option"
  period :: "real option"
  views_per_post :: "real option"
  forwards_per_post :: "real option"
  mentions_per_post :: "real option"
  stats_avg_post_reach :: "real option"
  stats_ci_index :: "real option"

text \<open>The object returned by \<^verbatim>\<open>calculateChannelMetrics\<close>.\<close>

record MetricsBundle =
  subscribers :: real
  avgReach :: real
  reachPercentage :: real
  engagementRate :: real
  ciIndex :: real
  errPercent :: real
  postsPerDay :: real
  viewsPerPost :: real
  forwardsPerPost :: real
  mentionsPerPost :: real
  categoryM :: string
  verifiedM :: bool
  languageM :: string

text \<open>The object returned by \<^verbatim>\<open>calculateQualityScore\<close>.\<close>

record Breakdown =
  bd_subscribers :: real
  bd_reach :: real
  bd_engagement :: real
  bd_ci :: real

record Modifiers =
  mod_category :: js_value
  mod_verified :: real
  mod_err :: real

record QualityScore =
  overall :: js_number
  breakdown :: Breakdown
  modifiers :: Modifiers

text \<open>The object returned by \<^verbatim>\<open>calculateEngagementMetrics\<close>.\<close>

datatype Consistency = Excellent | Good | Average | TooFrequent | Poor

record Engagement =
  views_total :: real
  views_perSubscriber :: real
  forwards_total :: real
  forwards_rate :: real
  mentions_total :: real
  mentions_rate :: real
  activity_postsPerDay :: real
  activity_consistency :: Consistency

record EngagementMetrics = Engagement +
  viralPotential :: real

text \<open>
  The entries pushed by \<^verbatim>\<open>generateRecommendations\<close>. Each constructor stands for one
  object literal of the source (its type, title and message); the two messages that
  interpolate a metric carry it.
\<close>

datatype Recommendation =
    ExcellentChannel
  | GoodChannel
  | NeedsReview
  | LowReach real
  | HighErr real
  | LowEngagement
  | TooFrequentPosts

text \<open>The object returned by \<^verbatim>\<open>estimateAdPrice\<close>.\<close>

record Cpm =
  cpm_min :: js_number
  cpm_max :: js_number
  cpm_avg :: js_number
  cpm_currency :: string

record PostPrice =
  estimated :: js_number
  post_currency :: string

record Factors =
  f_subscribers :: real
  f_category :: string
  f_quality :: js_number
  f_engagement :: real
  f_verified :: bool

record PriceEstimate =
  cpm :: Cpm
  postPrice :: PostPrice
  factors :: Factors

text \<open>
  The result of \<^verbatim>\<open>analyzeChannel\<close>: one object type with the flag \<^verbatim>\<open>success\<close>; the
  properties that a success has and a failure lacks (and conversely) are optional.
  The \<^verbatim>\<open>channel\<close> property of a failure holds the username only, or is \<^verbatim>\<open>null\<close>.
  The property \<^verbatim>\<open>analysisTimestamp\<close>, read from the wall clock, is left out.
\<close>

record ChannelIdentity =
  id_username :: "string option"
  id_title :: "string option"
  id_description :: "string option"
  id_participants_count :: "real option"
  id_category :: "string option"
  id_verified :: "bool option"
  id_language :: "string option"

record AnalysisResult =
  success :: bool
  error :: "js_error option"
  channel :: "ChannelIdentity option"
  metrics :: "MetricsBundle option"
  qualityScore :: "QualityScore option"
  engagementMetrics :: "EngagementMetrics option"
  recommendations :: "Recommendation list option"
  priceEstimate :: "PriceEstimate option"

text \<open>An entry of \<^verbatim>\<open>comparisons\<close>: the analysis spread into a new object, with a rank.\<close>

record Comparison = AnalysisResult +
  rank :: nat

text \<open>An element of the batch given to \<^verbatim>\<open>compareChannels\<close>.\<close>

record ChannelInput =
  info :: "ChannelSnapshot option"
  stats :: "PeriodStats option"

record CategoryStat =
  cat_count :: nat
  cat_avgScore :: js_number
  cat_avgSubscribers :: real
  cat_avgCpm :: js_number

record Summary =
  total :: nat
  avgQualityScore :: js_number
  avgSubscribers :: js_number
  sum_avgReach :: js_number
  categoryStats :: "string \<rightharpoonup> CategoryStat"

record ComparisonReport =
  channels :: "Comparison list"
  summary :: Summary

section \<open>The constructor's tables\<close>

definition categoryMultipliers :: "string \<rightharpoonup> real" where
  "categoryMultipliers =
     [''news'' \<mapsto> 12 / 10,
      ''tech'' \<mapsto> 13 / 10,
      ''lifestyle'' \<mapsto> 1,
      ''entertainment'' \<mapsto> 9 / 10,
      ''business'' \<mapsto> 14 / 10,
      ''education'' \<mapsto> 11 / 10,
      ''unknown'' \<mapsto> 1]"

section \<open>calculateChannelMetrics\<close>

text \<open>
  The first statement reads \<^verbatim>\<open>channelData.participants_count\<close>, which throws when
  \<^verbatim>\<open>channelData\<close> is \<^verbatim>\<open>null\<close> or \<^verbatim>\<open>undefined\<close>; \<^verbatim>\<open>statsData\<close> is only read through
  \<^verbatim>\<open>?.\<close> or behind the test of \<^verbatim>\<open>statsData?.posts_count\<close>, which is falsy when the
  statistics or the count are missing and when the count is \<open>0\<close>.
\<close>

fun calculateChannelMetrics ::
  "ChannelSnapshot option \<Rightarrow> PeriodStats option \<Rightarrow> js_error + MetricsBundle" where
  "calculateChannelMetrics None statsData = Inl TypeError"
| "calculateChannelMetrics (Some channelData) statsData =
     (let subscribers = or_num (participants_count channelData) 0;
          avgReach = or_num (avg_post_reach channelData)
                       (or_num (Option.bind statsData stats_avg_post_reach) 0);
          ciIndex = or_num (ci_index channelData)
                      (or_num (Option.bind statsData stats_ci_index) 0);
          errPercent = or_num (err_percent channelData) 0;
          reachPercentage = (if subscribers > 0 then (avgReach / subscribers) * 100 else 0);
          engagementRate = (if ciIndex > 0 then ciIndex else reachPercentage * (8 / 10));
          postsPerDay =
            (case Option.bind statsData posts_count of
               None \<Rightarrow> 1
             | Some posts \<Rightarrow>
                 if posts = 0 then 1
                 else posts / or_num (Option.bind statsData period) 7);
          viewsPerPost = or_num (Option.bind statsData views_per_post) avgReach;
          forwardsPerPost = or_num (Option.bind statsData forwards_per_post) 0;
          mentionsPerPost = or_num (Option.bind statsData mentions_per_post) 0
      in Inr \<lparr> subscribers = subscribers,
               avgReach = avgReach,
               reachPercentage = Math_round (reachPercentage * 100) / 100,
               engagementRate = Math_round (engagementRate * 100) / 100,
               ciIndex = Math_round (ciIndex * 100) / 100,
               errPercent = Math_round (errPercent * 100) / 100,
               postsPerDay = Math_round (postsPerDay * 10) / 10,
               viewsPerPost = viewsPerPost,
               forwardsPerPost = forwardsPerPost,
               mentionsPerPost = mentionsPerPost,
               categoryM = or_str (category channelData) ''unknown'',
               verifiedM = or_false (verified channelData),
               languageM = or_str (language channelData) ''unknown'' \<rparr>)"

section \<open>calculateQualityScore\<close>

text \<open>
  The variables \<^verbatim>\<open>score\<close> and \<^verbatim>\<open>weights\<close> are updated by four guarded blocks and three
  multiplications; each update is a new binding here. From the category multiplier on,
  the score may be \<^verbatim>\<open>NaN\<close>. The parameter \<^verbatim>\<open>metrics\<close> is \<open>m\<close>
  (and \<^verbatim>\<open>qualityScore\<close> is \<open>q\<close> further on), the names being those of record fields.
\<close>

definition calculateQualityScore :: "MetricsBundle \<Rightarrow> QualityScore" where
  "calculateQualityScore m =
     (let score0 = 0;
          weights0 = 0;
          score1 = (if subscribers m > 0
                    then score0 + min 25 (Math_log10 (subscribers m) * 5) * (25 / 100)
                    else score0);
          weights1 = (if subscribers m > 0 then weights0 + 25 / 100 else weights0);
          score2 = (if reachPercentage m > 0
                    then score1 + min 30 (reachPercentage m * 2) * (30 / 100)
                    else score1);
          weights2 = (if reachPercentage m > 0 then weights1 + 30 / 100 else weights1);
          score3 = (if engagementRate m > 0
                    then score2 + min 25 (engagementRate m * 5) * (25 / 100)
                    else score2);
          weights3 = (if engagementRate m > 0 then weights2 + 25 / 100 else weights2);
          score4 = (if ciIndex m > 0
                    then score3 + min 20 (ciIndex m * 20) * (20 / 100)
                    else score3);
          weights4 = (if ciIndex m > 0 then weights3 + 20 / 100 else weights3);
          categoryMultiplier = lookup_or categoryMultipliers (categoryM m) 1;
          score5 = arith2 (*) (Num score4) (toNumber categoryMultiplier);
          score6 = (if verifiedM m then arith (\<lambda>s. s * (11 / 10)) score5 else score5);
          score7 = (if errPercent m > 5
                    then arith (\<lambda>s. s * (1 - (errPercent m / 100) * (5 / 10))) score6
                    else score6);
          finalScore = (if weights4 > 0
                        then arith (\<lambda>s. min 100 (max 0 (s / weights4 * 100))) score7
                        else Num 0)
      in \<lparr> overall = arith (\<lambda>f. Math_round (f * 100) / 100) finalScore,
           breakdown =
             \<lparr> bd_subscribers =
                 Math_round ((if subscribers m > 0
                              then Math_log10 (subscribers m) * 5 else 0) * 100) / 100,
               bd_reach = Math_round (min 30 (reachPercentage m * 2) * 100) / 100,
               bd_engagement = Math_round (min 25 (engagementRate m * 5) * 100) / 100,
               bd_ci = Math_round (min 20 (ciIndex m * 20) * 100) / 100 \<rparr>,
           modifiers =
             \<lparr> mod_category = categoryMultiplier,
               mod_verified = (if verifiedM m then 11 / 10 else 1),
               mod_err = (if errPercent m > 5
                          then 1 - (errPercent m / 100) * (5 / 10)
                          else 1) \<rparr> \<rparr>)"

section \<open>calculateEngagementMetrics\<close>

definition calculateConsistencyScore :: "real \<Rightarrow> Consistency" where
  "calculateConsistencyScore perDay =
     (if perDay \<ge> 1 \<and> perDay \<le> 3 then Excellent
      else if perDay \<ge> 5 / 10 \<and> perDay < 1 then Good
      else if perDay \<ge> 2 / 10 \<and> perDay < 5 / 10 then Average
      else if perDay > 3 then TooFrequent
      else Poor)"

text \<open>
  \<^verbatim>\<open>calculateViralPotential\<close> is called on the engagement object before its
  \<^verbatim>\<open>viralPotential\<close> property is set, hence on any extension of \<^typ>\<open>Engagement\<close>.
\<close>

definition calculateViralPotential :: "'a Engagement_scheme \<Rightarrow> real" where
  "calculateViralPotential e =
     (let viralScore0 = 0;
          viralScore1 = (if forwards_rate e > 5 then viralScore0 + 40
                         else if forwards_rate e > 2 then viralScore0 + 25
                         else if forwards_rate e > 1 then viralScore0 + 15
                         else viralScore0);
          viralScore2 = (if mentions_rate e > 3 then viralScore1 + 30
                         else if mentions_rate e > 1 then viralScore1 + 20
                         else if mentions_rate e > 5 / 10 then viralScore1 + 10
                         else viralScore1);
          viralScore3 = (if views_perSubscriber e > 12 / 10 then viralScore2 + 20
                         else if views_perSubscriber e > 1 then viralScore2 + 15
                         else if views_perSubscriber e > 8 / 10 then viralScore2 + 10
                         else viralScore2);
          viralScore4 = (if activity_consistency e = Excellent then viralScore3 + 10
                         else if activity_consistency e = Good then viralScore3 + 5
                         else viralScore3)
      in min 100 viralScore4)"

definition calculateEngagementMetrics :: "MetricsBundle \<Rightarrow> EngagementMetrics" where
  "calculateEngagementMetrics m =
     (let engagement =
            \<lparr> views_total = viewsPerPost m,
              views_perSubscriber =
                (if subscribers m > 0
                 then Math_round ((viewsPerPost m / subscribers m) * 10000) / 10000 else 0),
              forwards_total = forwardsPerPost m,
              forwards_rate =
                (if viewsPerPost m > 0
                 then Math_round ((forwardsPerPost m / viewsPerPost m) * 10000) / 100 else 0),
              mentions_total = mentionsPerPost m,
              mentions_rate =
                (if viewsPerPost m > 0
                 then Math_round ((mentionsPerPost m / viewsPerPost m) * 10000) / 100 else 0),
              activity_postsPerDay = postsPerDay m,
              activity_consistency = calculateConsistencyScore (postsPerDay m) \<rparr>
      in Engagement.extend engagement
           (EngagementMetrics.fields (calculateViralPotential engagement)))"

section \<open>generateRecommendations\<close>

definition generateRecommendations :: "MetricsBundle \<Rightarrow> QualityScore \<Rightarrow> Recommendation list" where
  "generateRecommendations m q =
     (if num_ge (overall q) 90 then [ExcellentChannel]
      else if num_ge (overall q) 70 then [GoodChannel]
      else [NeedsReview])
     @ (if reachPercentage m < 20 then [LowReach (reachPercentage m)] else [])
     @ (if errPercent m > 10 then [HighErr (errPercent m)] else [])
     @ (if engagementRate m < 5 then [LowEngagement] else [])
     @ (if postsPerDay m > 5 then [TooFrequentPosts] else [])"

section \<open>estimateAdPrice\<close>

text \<open>
  The value of the variable \<^verbatim>\<open>baseCpm\<close> when the price range is computed, after its
  five adjustments (each one a new binding here).
\<close>

definition baseCpm :: "MetricsBundle \<Rightarrow> QualityScore \<Rightarrow> js_number" where
  "baseCpm m q =
     (let baseCpm0 = 100;
          baseCpm1 = (if subscribers m > 100000 then baseCpm0 * (15 / 10)
                      else if subscribers m > 50000 then baseCpm0 * (13 / 10)
                      else if subscribers m > 10000 then baseCpm0 * (11 / 10)
                      else if subscribers m < 1000 then baseCpm0 * (5 / 10)
                      else baseCpm0);
          categoryMultiplier = lookup_or categoryMultipliers (categoryM m) 1;
          baseCpm2 = arith2 (*) (Num baseCpm1) (toNumber categoryMultiplier);
          qualityMultiplier = arith (\<lambda>v. 5 / 10 + (v / 100)) (overall q);
          baseCpm3 = arith2 (*) baseCpm2 qualityMultiplier;
          baseCpm4 = (if engagementRate m > 15 then arith (\<lambda>b. b * (14 / 10)) baseCpm3
                      else if engagementRate m > 10 then arith (\<lambda>b. b * (12 / 10)) baseCpm3
                      else if engagementRate m < 3 then arith (\<lambda>b. b * (8 / 10)) baseCpm3
                      else baseCpm3);
          baseCpm5 = (if verifiedM m then arith (\<lambda>b. b * (12 / 10)) baseCpm4 else baseCpm4)
      in baseCpm5)"

definition estimateAdPrice :: "MetricsBundle \<Rightarrow> QualityScore \<Rightarrow> PriceEstimate" where
  "estimateAdPrice m q =
     (let base = baseCpm m q;
          minPrice = arith (\<lambda>b. Math_round (b * (7 / 10))) base;
          maxPrice = arith (\<lambda>b. Math_round (b * (13 / 10))) base;
          avgPrice = arith Math_round base;
          estimatedViews = (if avgReach m \<noteq> 0 then avgReach m else subscribers m * (3 / 10));
          price = arith (\<lambda>a. Math_round ((a / 1000) * (estimatedViews / 1000) * 1000)) avgPrice
      in \<lparr> cpm = \<lparr> cpm_min = minPrice, cpm_max = maxPrice, cpm_avg = avgPrice,
                   cpm_currency = ''RUB'' \<rparr>,
           postPrice = \<lparr> estimated = price, post_currency = ''RUB'' \<rparr>,
           factors = \<lparr> f_subscribers = subscribers m,
                       f_category = categoryM m,
                       f_quality = overall q,
                       f_engagement = engagementRate m,
                       f_verified = verifiedM m \<rparr> \<rparr>)"

section \<open>analyzeChannel and validateAnalysisData\<close>

text \<open>The object built by the \<^verbatim>\<open>catch\<close> block.\<close>

definition failureResult :: "js_error \<Rightarrow> ChannelSnapshot option \<Rightarrow> AnalysisResult" where
  "failureResult e channelData =
     \<lparr> success = False,
       error = Some e,
       channel = (case channelData of
                    None \<Rightarrow> None
                  | Some c \<Rightarrow>
                      Some \<lparr> id_username = username c, id_title = None, id_description = None,
                             id_participants_count = None, id_category = None,
                             id_verified = None, id_language = None \<rparr>),
       metrics = None,
       qualityScore = None,
       engagementMetrics = None,
       recommendations = None,
       priceEstimate = None \<rparr>"

text \<open>
  The \<^verbatim>\<open>try\<close> block: the metrics first (the only call that can throw), then the four
  computations on them, then the reads of \<^verbatim>\<open>channelData\<close> for the identity.
  \<^verbatim>\<open>validateAnalysisData\<close> is not called.
\<close>

definition analyzeChannel :: "ChannelSnapshot option \<Rightarrow> PeriodStats option \<Rightarrow> AnalysisResult" where
  "analyzeChannel channelData statsData =
     (case calculateChannelMetrics channelData statsData of
        Inl e \<Rightarrow> failureResult e channelData
      | Inr m \<Rightarrow>
          (let q = calculateQualityScore m;
               e = calculateEngagementMetrics m;
               r = generateRecommendations m q;
               p = estimateAdPrice m q
           in case channelData of
                None \<Rightarrow> failureResult TypeError channelData
              | Some c \<Rightarrow>
                  \<lparr> success = True,
                    error = None,
                    channel = Some \<lparr> id_username = username c,
                                     id_title = title c,
                                     id_description = description c,
                                     id_participants_count = participants_count c,
                                     id_category = category c,
                                     id_verified = verified c,
                                     id_language = language c \<rparr>,
                    metrics = Some m,
                    qualityScore = Some q,
                    engagementMetrics = Some e,
                    recommendations = Some r,
                    priceEstimate = Some p \<rparr>))"

text \<open>
  The three messages of \<^verbatim>\<open>validateAnalysisData\<close>, in the order of its checks: no
  channel data, a falsy username (missing or empty), a subscriber count that is not a
  number or is negative.
\<close>

datatype validation_error = NoChannelData | NoUsername | BadSubscriberCount

definition validateAnalysisData :: "ChannelSnapshot option \<Rightarrow> validation_error + bool" where
  "validateAnalysisData channelData =
     (case channelData of
        None \<Rightarrow> Inl NoChannelData
      | Some c \<Rightarrow>
          if username c = None \<or> username c = Some [] then Inl NoUsername
          else (case participants_count c of
                  None \<Rightarrow> Inl BadSubscriberCount
                | Some n \<Rightarrow> if n < 0 then Inl BadSubscriberCount else Inr True))"

section \<open>compareChannels\<close>

text \<open>\<^verbatim>\<open>{ ...analysis, rank: r }\<close>.\<close>

definition spread_rank :: "AnalysisResult \<Rightarrow> nat \<Rightarrow> Comparison" where
  "spread_rank a r =
     \<lparr> success = success a,
       error = error a,
       channel = channel a,
       metrics = metrics a,
       qualityScore = qualityScore a,
       engagementMetrics = engagementMetrics a,
       recommendations = recommendations a,
       priceEstimate = priceEstimate a,
       rank = r \<rparr>"

text \<open>
  The comparator \<^verbatim>\<open>(a, b) => b.qualityScore.overall - a.qualityScore.overall\<close>: it
  throws when either entry has no \<^verbatim>\<open>qualityScore\<close>.
\<close>

definition compareByScore :: "Comparison \<Rightarrow> Comparison \<Rightarrow> js_error + js_number" where
  "compareByScore a b =
     (case qualityScore b of
        None \<Rightarrow> Inl TypeError
      | Some qb \<Rightarrow>
          (case qualityScore a of
             None \<Rightarrow> Inl TypeError
           | Some qa \<Rightarrow> Inr (arith2 (-) (overall qb) (overall qa))))"

text \<open>
  \<^verbatim>\<open>Array.prototype.sort\<close> with a comparator: the language requires a stable sort, an
  element \<open>x\<close> going after \<open>y\<close> when the comparator is positive on \<open>(x, y)\<close>; a result
  \<^verbatim>\<open>NaN\<close> of the comparator counts as \<open>0\<close>; and an exception of the comparator ends the
  sort. The sequence of comparisons is left to the engine; the model is an insertion sort
  from the right, in which, as in every comparison sort, each element of a list of two or
  more is compared at least once.
\<close>

fun sortCompare :: "js_number \<Rightarrow> real" where
  "sortCompare (Num v) = v"
| "sortCompare NaN = 0"

fun sort_insert ::
  "('a \<Rightarrow> 'a \<Rightarrow> js_error + js_number) \<Rightarrow> 'a \<Rightarrow> 'a list \<Rightarrow> js_error + 'a list" where
  "sort_insert cmp x [] = Inr [x]"
| "sort_insert cmp x (y # ys) =
     (case cmp x y of
        Inl e \<Rightarrow> Inl e
      | Inr c \<Rightarrow>
          if sortCompare c \<le> 0 then Inr (x # y # ys)
          else (case sort_insert cmp x ys of
                  Inl e \<Rightarrow> Inl e
                | Inr zs \<Rightarrow> Inr (y # zs)))"

fun Array_sort ::
  "('a \<Rightarrow> 'a \<Rightarrow> js_error + js_number) \<Rightarrow> 'a list \<Rightarrow> js_error + 'a list" where
  "Array_sort cmp [] = Inr []"
| "Array_sort cmp (x # xs) =
     (case Array_sort cmp xs of
        Inl e \<Rightarrow> Inl e
      | Inr ys \<Rightarrow> sort_insert cmp x ys)"

text \<open>\<^verbatim>\<open>comparisons.forEach((item, index) => { item.rank = index + 1; })\<close>.\<close>

definition assignRanks :: "Comparison list \<Rightarrow> Comparison list" where
  "assignRanks comparisons =
     map (\<lambda>(index, item). item\<lparr>rank := index + 1\<rparr>) (enumerate 0 comparisons)"

text \<open>
  The body of the first loop of \<^verbatim>\<open>calculateCategoryStats\<close>, on the object
  \<^verbatim>\<open>categories\<close> (its own keys, a map from category names): it throws when the entry
  has no \<^verbatim>\<open>metrics\<close>, \<^verbatim>\<open>qualityScore\<close> or \<^verbatim>\<open>priceEstimate\<close>. The test
  \<^verbatim>\<open>!categories[category]\<close> searches the prototype chain too: for a category that names
  an inherited member no entry is created, the four updates are made on that member (they
  leave \<^verbatim>\<open>NaN\<close> properties on it, outside of \<^verbatim>\<open>categories\<close>), and the own keys stay as
  they are.
\<close>

definition addToCategory ::
  "(string \<rightharpoonup> CategoryStat) \<Rightarrow> Comparison \<Rightarrow> js_error + (string \<rightharpoonup> CategoryStat)" where
  "addToCategory categories ch =
     (case metrics ch of
        None \<Rightarrow> Inl TypeError
      | Some m \<Rightarrow>
          (let cat = (case categories (categoryM m) of
                        None \<Rightarrow> \<lparr> cat_count = 0, cat_avgScore = Num 0,
                                   cat_avgSubscribers = 0, cat_avgCpm = Num 0 \<rparr>
                      | Some c \<Rightarrow> c)
           in case qualityScore ch of
                None \<Rightarrow> Inl TypeError
              | Some q \<Rightarrow>
                  (case priceEstimate ch of
                     None \<Rightarrow> Inl TypeError
                   | Some p \<Rightarrow>
                       if categories (categoryM m) = None
                          \<and> categoryM m \<in> set objectPrototypeKeys
                       then Inr categories
                       else
                         Inr (categories(categoryM m \<mapsto>
                                \<lparr> cat_count = cat_count cat + 1,
                                  cat_avgScore = arith2 (+) (cat_avgScore cat) (overall q),
                                  cat_avgSubscribers = cat_avgSubscribers cat + subscribers m,
                                  cat_avgCpm =
                                    arith2 (+) (cat_avgCpm cat) (cpm_avg (cpm p)) \<rparr>)))))"

fun addAllToCategories ::
  "(string \<rightharpoonup> CategoryStat) \<Rightarrow> Comparison list \<Rightarrow> js_error + (string \<rightharpoonup> CategoryStat)" where
  "addAllToCategories categories [] = Inr categories"
| "addAllToCategories categories (ch # rest) =
     (case addToCategory categories ch of
        Inl e \<Rightarrow> Inl e
      | Inr categories' \<Rightarrow> addAllToCategories categories' rest)"

text \<open>The body of the second loop: the sums become averages (the count is at least 1).\<close>

definition averageCategory :: "CategoryStat \<Rightarrow> CategoryStat" where
  "averageCategory cat =
     \<lparr> cat_count = cat_count cat,
       cat_avgScore =
         arith (\<lambda>v. Math_round (v / real (cat_count cat) * 100) / 100) (cat_avgScore cat),
       cat_avgSubscribers = Math_round (cat_avgSubscribers cat / real (cat_count cat)),
       cat_avgCpm = arith (\<lambda>v. Math_round (v / real (cat_count cat))) (cat_avgCpm cat) \<rparr>"

definition calculateCategoryStats ::
  "Comparison list \<Rightarrow> js_error + (string \<rightharpoonup> CategoryStat)" where
  "calculateCategoryStats chs =
     (case addAllToCategories Map.empty chs of
        Inl e \<Rightarrow> Inl e
      | Inr categories \<Rightarrow> Inr (\<lambda>k. map_option averageCategory (categories k)))"

text \<open>
  \<^verbatim>\<open>comparisons.reduce((sum, ch) => sum + f(ch), 0)\<close> for a callback that reads a
  property of an optional property of \<^verbatim>\<open>ch\<close>: \<open>f ch = None\<close> is the read that throws.
\<close>

fun reduce_sum ::
  "('a \<Rightarrow> js_number option) \<Rightarrow> js_number \<Rightarrow> 'a list \<Rightarrow> js_error + js_number" where
  "reduce_sum f acc [] = Inr acc"
| "reduce_sum f acc (ch # rest) =
     (case f ch of
        None \<Rightarrow> Inl TypeError
      | Some v \<Rightarrow> reduce_sum f (arith2 (+) acc v) rest)"

text \<open>A quotient by the length of the batch: \<^verbatim>\<open>NaN\<close> when the batch is empty.\<close>

definition perLength :: "js_number \<Rightarrow> nat \<Rightarrow> js_number" where
  "perLength s n = (if n = 0 then NaN else arith (\<lambda>v. v / real n) s)"

definition compareChannels :: "ChannelInput list \<Rightarrow> js_error + ComparisonReport" where
  "compareChannels channelsData =
     (let comparisons =
            map (\<lambda>ch. spread_rank (analyzeChannel (info ch) (stats ch)) 0) channelsData
      in case Array_sort compareByScore comparisons of
           Inl e \<Rightarrow> Inl e
         | Inr ordered \<Rightarrow>
             (let ranked = assignRanks ordered
              in case calculateCategoryStats ranked of
                   Inl e \<Rightarrow> Inl e
                 | Inr perCategory \<Rightarrow>
                     (case reduce_sum (\<lambda>ch. map_option overall (qualityScore ch))
                             (Num 0) ranked of
                        Inl e \<Rightarrow> Inl e
                      | Inr scoreSum \<Rightarrow>
                          (case reduce_sum
                                  (\<lambda>ch. map_option (\<lambda>m. Num (subscribers m)) (metrics ch))
                                  (Num 0) ranked of
                             Inl e \<Rightarrow> Inl e
                           | Inr subscriberSum \<Rightarrow>
                               (case reduce_sum
                                       (\<lambda>ch. map_option (\<lambda>m. Num (reachPercentage m))
                                               (metrics ch))
                                       (Num 0) ranked of
                                  Inl e \<Rightarrow> Inl e
                                | Inr reachSum \<Rightarrow>
                                    Inr \<lparr> channels = ranked,
                                          summary =
                                            \<lparr> total = length ranked,
                                              avgQualityScore =
                                                arith (\<lambda>v. Math_round (v * 100) / 100)
                                                  (perLength scoreSum (length ranked)),
                                              avgSubscribers =
                                                arith Math_round
                                                  (perLength subscriberSum (length ranked)),
                                              sum_avgReach =
                                                arith (\<lambda>v. Math_round (v * 100) / 100)
                                                  (perLength reachSum (length ranked)),
                                              categoryStats = perCategory \<rparr> \<rparr>)))))"

section \<open>The scorer in the words of the specification\<close>

text \<open>
  The specification describes the scorer by a weighted sum and a total weight: the sum of
  sub-score times weight, and the sum of the weights, over the factors whose driving
  metric is positive. These two definitions follow that wording; they are compared with
  \<^const>\<open>calculateQualityScore\<close> below.
\<close>

definition spec_weightedSum :: "MetricsBundle \<Rightarrow> real" where
  "spec_weightedSum m =
     (if subscribers m > 0 then min 25 (Math_log10 (subscribers m) * 5) * (25 / 100) else 0)
   + (if reachPercentage m > 0 then min 30 (reachPercentage m * 2) * (30 / 100) else 0)
   + (if engagementRate m > 0 then min 25 (engagementRate m * 5) * (25 / 100) else 0)
   + (if ciIndex m > 0 then min 20 (ciIndex m * 20) * (20 / 100) else 0)"

definition spec_totalWeight :: "MetricsBundle \<Rightarrow> real" where
  "spec_totalWeight m =
     (if subscribers m > 0 then 25 / 100 else 0)
   + (if reachPercentage m > 0 then 30 / 100 else 0)
   + (if engagementRate m > 0 then 25 / 100 else 0)
   + (if ciIndex m > 0 then 20 / 100 else 0)"

section \<open>Concrete inputs\<close>

text \<open>A metrics bundle with every number zero, no category and no verification.\<close>

definition scenarioB :: MetricsBundle where
  "scenarioB =
     \<lparr> subscribers = 0, avgReach = 0, reachPercentage = 0, engagementRate = 0,
       ciIndex = 0, errPercent = 0, postsPerDay = 0, viewsPerPost = 0,
       forwardsPerPost = 0, mentionsPerPost = 0, categoryM = ''unknown'',
       verifiedM = False, languageM = ''unknown'' \<rparr>"

text \<open>A channel of a million subscribers.\<close>

definition millionSubscribers :: MetricsBundle where
  "millionSubscribers = scenarioB\<lparr>subscribers := 1000000\<rparr>"

text \<open>A reach of 0.2 percent with an ERR of 150 percent, and with one of 50 percent.\<close>

definition err150 :: MetricsBundle where
  "err150 = scenarioB\<lparr>reachPercentage := 2 / 10, errPercent := 150\<rparr>"

definition err50 :: MetricsBundle where
  "err50 = scenarioB\<lparr>reachPercentage := 2 / 10, errPercent := 50\<rparr>"

text \<open>A quality score of 50 with an empty breakdown and neutral modifiers.\<close>

definition score50 :: QualityScore where
  "score50 =
     \<lparr> overall = Num 50,
       breakdown = \<lparr> bd_subscribers = 0, bd_reach = 0, bd_engagement = 0, bd_ci = 0 \<rparr>,
       modifiers = \<lparr> mod_category = Number 1, mod_verified = 1, mod_err = 1 \<rparr> \<rparr>"

text \<open>A snapshot and period statistics with no property set.\<close>

definition emptySnapshot :: ChannelSnapshot where
  "emptySnapshot =
     \<lparr> username = None, title = None, description = None, participants_count = None,
       category = None, verified = None, language = None, avg_post_reach = None,
       ci_index = None, err_percent = None \<rparr>"

definition emptyStats :: PeriodStats where
  "emptyStats =
     \<lparr> posts_count = None, period = None, views_per_post = None,
       forwards_per_post = None, mentions_per_post = None,
       stats_avg_post_reach = None, stats_ci_index = None \<rparr>"

text \<open>Statistics of a week without posts, and of fourteen posts with no period given.\<close>

definition zeroPosts :: PeriodStats where
  "zeroPosts = emptyStats\<lparr>posts_count := Some 0, period := Some 7\<rparr>"

definition fourteenPosts :: PeriodStats where
  "fourteenPosts = emptyStats\<lparr>posts_count := Some 14\<rparr>"

text \<open>A snapshot without a username and with a negative subscriber count.\<close>

definition negativeChannel :: ChannelSnapshot where
  "negativeChannel = emptySnapshot\<lparr>participants_count := Some (- 5)\<rparr>"

text \<open>
  A snapshot whose reach and citation index are present with the value 0, and statistics
  that have both.
\<close>

definition zeroReachChannel :: ChannelSnapshot where
  "zeroReachChannel =
     emptySnapshot\<lparr>participants_count := Some 1000, avg_post_reach := Some 0,
       ci_index := Some 0\<rparr>"

definition reachStats :: PeriodStats where
  "reachStats = emptyStats\<lparr>stats_avg_post_reach := Some 500, stats_ci_index := Some 3\<rparr>"

text \<open>
  Two batches of three channels: in the first the second channel has no data
  (\<^verbatim>\<open>info: null\<close>), in the second every channel has.
\<close>

definition failingBatch :: "ChannelInput list" where
  "failingBatch =
     [\<lparr> info = Some (emptySnapshot\<lparr>username := Some ''a'', participants_count := Some 1000\<rparr>),
        stats = None \<rparr>,
      \<lparr> info = None, stats = None \<rparr>,
      \<lparr> info = Some (emptySnapshot\<lparr>username := Some ''c'', participants_count := Some 2000\<rparr>),
        stats = None \<rparr>]"

definition goodBatch :: "ChannelInput list" where
  "goodBatch =
     [\<lparr> info = Some (emptySnapshot\<lparr>username := Some ''a'', participants_count := Some 1000\<rparr>),
        stats = None \<rparr>,
      \<lparr> info = Some negativeChannel, stats = Some zeroPosts \<rparr>,
      \<lparr> info = Some (emptySnapshot\<lparr>username := Some ''c'', participants_count := Some 2000\<rparr>),
        stats = None \<rparr>]"

text \<open>
  A reach of 10 percent in a category named \<^verbatim>\<open>toString\<close>, and Scenario B in that
  category.
\<close>

definition toStringReach :: MetricsBundle where
  "toStringReach = scenarioB\<lparr>reachPercentage := 10, categoryM := ''toString''\<rparr>"

definition toStringScenarioB :: MetricsBundle where
  "toStringScenarioB = scenarioB\<lparr>categoryM := ''toString''\<rparr>"

text \<open>
  A batch of three channels with citation indices 0.03, 0.03 and 0.06 and nothing else,
  the second in a category named \<^verbatim>\<open>toString\<close>.
\<close>

definition lowChannel :: ChannelSnapshot where
  "lowChannel = emptySnapshot\<lparr>username := Some ''a'', ci_index := Some (3 / 100)\<rparr>"

definition toStringChannel :: ChannelSnapshot where
  "toStringChannel =
     emptySnapshot\<lparr>username := Some ''b'', category := Some ''toString'',
       ci_index := Some (3 / 100)\<rparr>"

definition highChannel :: ChannelSnapshot where
  "highChannel = emptySnapshot\<lparr>username := Some ''c'', ci_index := Some (6 / 100)\<rparr>"

definition nanBatch :: "ChannelInput list" where
  "nanBatch =
     [\<lparr> info = Some lowChannel, stats = None \<rparr>,
      \<lparr> info = Some toStringChannel, stats = None \<rparr>,
      \<lparr> info = Some highChannel, stats = None \<rparr>]"

section \<open>Reading a comparison entry\<close>

text \<open>
  The score by which an entry is sorted (\<^verbatim>\<open>NaN\<close> when it has none), that score as a
  real number when it is one, and the analysis that an entry was spread from: the entry
  without its rank.
\<close>

definition scoreOf :: "'a AnalysisResult_scheme \<Rightarrow> js_number" where
  "scoreOf c = (case qualityScore c of None \<Rightarrow> NaN | Some q \<Rightarrow> overall q)"

definition finiteScore :: "'a AnalysisResult_scheme \<Rightarrow> real" where
  "finiteScore c = sortCompare (scoreOf c)"

definition unranked :: "Comparison \<Rightarrow> AnalysisResult" where
  "unranked c =
     \<lparr> success = success c, error = error c, channel = channel c, metrics = metrics c,
       qualityScore = qualityScore c, engagementMetrics = engagementMetrics c,
       recommendations = recommendations c, priceEstimate = priceEstimate c \<rparr>"

section \<open>Rounding and the multiplier table\<close>

lemma Math_round_int: "Math_round (of_int k) = of_int k"
  by (simp add: Math_round_def)

lemma Math_round_numeral: "Math_round (numeral k) = numeral k"
  using Math_round_int [of "numeral k"] by simp

lemma Math_round_zero: "Math_round 0 = 0"
  using Math_round_int [of 0] by simp

lemma Math_round_one: "Math_round 1 = 1"
  using Math_round_int [of 1] by simp

lemma Math_round_mono: "x \<le> y \<Longrightarrow> Math_round x \<le> Math_round y"
  by (simp add: Math_round_def floor_mono)

lemma Math_round_dist: "\<bar>Math_round x - x\<bar> \<le> 1 / 2"
  unfolding Math_round_def by linarith

lemma Math_round_near:
  assumes "\<bar>x - y\<bar> < 1"
  shows "\<bar>Math_round x - Math_round y\<bar> \<le> 1"
proof -
  have "\<bar>(x + 1 / 2) - (y + 1 / 2)\<bar> < 1" using assms by simp
  then have "\<bar>\<lfloor>x + 1 / 2\<rfloor> - \<lfloor>y + 1 / 2\<rfloor>\<bar> \<le> 1" by linarith
  then have "\<bar>(of_int \<lfloor>x + 1 / 2\<rfloor> :: real) - of_int \<lfloor>y + 1 / 2\<rfloor>\<bar> \<le> 1"
    by (metis of_int_diff of_int_abs of_int_le_1_iff)
  then show ?thesis by (simp add: Math_round_def)
qed

lemma Math_round_percent_bounds:
  assumes "0 \<le> x" and "x \<le> 100"
  shows "0 \<le> Math_round (x * 100) / 100" and "Math_round (x * 100) / 100 \<le> 100"
proof -
  have "(0::int) \<le> \<lfloor>x * 100 + 1 / 2\<rfloor>" using assms by simp
  then show "0 \<le> Math_round (x * 100) / 100" by (simp add: Math_round_def)
  have "x * 100 + 1 / 2 < 10001" using assms by simp
  then have "\<lfloor>x * 100 + 1 / 2\<rfloor> < 10001" by (simp add: floor_less_iff)
  then have "\<lfloor>x * 100 + 1 / 2\<rfloor> \<le> 10000" by simp
  then have "(of_int \<lfloor>x * 100 + 1 / 2\<rfloor> :: real) \<le> 10000" by linarith
  then show "Math_round (x * 100) / 100 \<le> 100" by (simp add: Math_round_def)
qed

lemma Math_log10_million: "Math_log10 1000000 = 6"
proof -
  have "(1000000::real) = 10 ^ 6" by simp
  moreover have "log 10 ((10::real) ^ 6) = real 6 * log 10 10" by (rule log_nat_power) simp
  ultimately have "log 10 (1000000::real) = 6" by (simp only: log_eq_one)
  then show ?thesis by (simp add: Math_log10_def)
qed

lemma lookup_unknown: "lookup_or categoryMultipliers ''unknown'' 1 = Number 1"
  by (simp add: lookup_or_def categoryMultipliers_def)

lemma lookup_toString: "lookup_or categoryMultipliers ''toString'' 1 = Inherited"
  by (simp add: lookup_or_def categoryMultipliers_def objectPrototypeKeys_def)

lemma categoryMultipliers_pos: "categoryMultipliers key = Some v \<Longrightarrow> 0 < v"
  by (auto simp add: categoryMultipliers_def split: if_splits)

lemma lookup_own:
  assumes "key \<notin> set objectPrototypeKeys"
  shows "\<exists>v. lookup_or categoryMultipliers key 1 = Number v \<and> 0 < v"
proof (cases "categoryMultipliers key")
  case None
  with assms show ?thesis by (simp add: lookup_or_def)
next
  case (Some v)
  then have "0 < v" by (rule categoryMultipliers_pos)
  with Some show ?thesis by (simp add: lookup_or_def)
qed

lemma if_add_right: "(if c then s + x else s) = s + (if c then x else (0::real))"
  by simp

lemma if_mult_right: "(if c then s * x else s) = s * (if c then x else (1::real))"
  by simp

section \<open>Properties of calculateQualityScore\<close>

lemma overall_unfold:
  "overall (calculateQualityScore m)
     = (let s5 = arith2 (*) (Num (spec_weightedSum m))
                   (toNumber (lookup_or categoryMultipliers (categoryM m) 1));
            s6 = (if verifiedM m then arith (\<lambda>s. s * (11 / 10)) s5 else s5);
            s7 = (if errPercent m > 5
                  then arith (\<lambda>s. s * (1 - (errPercent m / 100) * (5 / 10))) s6
                  else s6)
        in arith (\<lambda>f. Math_round (f * 100) / 100)
             (if spec_totalWeight m > 0
              then arith (\<lambda>s. min 100 (max 0 (s / spec_totalWeight m * 100))) s7
              else Num 0))"
  unfolding calculateQualityScore_def Let_def spec_weightedSum_def spec_totalWeight_def
  by (simp only: QualityScore.select_convs if_add_right add_0)

lemma overall_eq:
  "overall (calculateQualityScore m)
     = (if spec_totalWeight m > 0
        then arith (\<lambda>c. Math_round (min 100 (max 0 (spec_weightedSum m * c
                           * (if verifiedM m then 11 / 10 else 1)
                           * (if errPercent m > 5
                              then 1 - (errPercent m / 100) * (5 / 10) else 1)
                           / spec_totalWeight m * 100)) * 100) / 100)
               (toNumber (lookup_or categoryMultipliers (categoryM m) 1))
        else Num 0)"
proof (cases "toNumber (lookup_or categoryMultipliers (categoryM m) 1)")
  case (Num v)
  then show ?thesis
    by (simp add: overall_unfold Let_def Math_round_zero)
next
  case NaN
  then show ?thesis
    by (simp add: overall_unfold Let_def Math_round_zero)
qed

lemma overall_in_range_own_category:
  assumes "categoryM m \<notin> set objectPrototypeKeys"
  shows "\<exists>r. overall (calculateQualityScore m) = Num r \<and> 0 \<le> r \<and> r \<le> 100"
proof -
  from assms obtain v where v: "lookup_or categoryMultipliers (categoryM m) 1 = Number v"
    using lookup_own by blast
  show ?thesis
  proof (cases "spec_totalWeight m > 0")
    case True
    let ?x = "min 100 (max 0 (spec_weightedSum m * v
                           * (if verifiedM m then 11 / 10 else 1)
                           * (if errPercent m > 5
                              then 1 - (errPercent m / 100) * (5 / 10) else 1)
                           / spec_totalWeight m * 100))"
    have "overall (calculateQualityScore m) = Num (Math_round (?x * 100) / 100)"
      using True v by (simp add: overall_eq)
    moreover have "0 \<le> ?x" "?x \<le> 100" by simp_all
    ultimately show ?thesis
      using Math_round_percent_bounds [of ?x] by blast
  next
    case False
    then show ?thesis by (simp add: overall_eq)
  qed
qed

text \<open>
  Claim C2 asks that the overall score lies in the closed interval from 0 to 100 for
  every metrics bundle with non-negative numbers, which is what the comment of
  \<^verbatim>\<open>calculateQualityScore\<close> announces (a score from 0 to 100) and what its final clamp is
  for. It holds whenever the category does not name a member inherited from
  \<^verbatim>\<open>Object.prototype\<close> (\<open>overall_in_range_own_category\<close>). For such a name the lookup
  of the multiplier returns the inherited member, the score becomes \<^verbatim>\<open>NaN\<close> and the
  clamp and the rounding keep it: for a reach of 10 percent in the category
  \<^verbatim>\<open>toString\<close> the overall score is \<^verbatim>\<open>NaN\<close>.
\<close>

theorem overall_nan_for_inherited_category:
  "overall (calculateQualityScore toStringReach) = NaN"
proof -
  have "spec_totalWeight toStringReach > 0"
    by (simp add: spec_totalWeight_def toStringReach_def scenarioB_def)
  moreover have "categoryM toStringReach = ''toString''"
    by (simp add: toStringReach_def scenarioB_def)
  ultimately show ?thesis
    by (simp add: overall_eq lookup_toString)
qed


text \<open>
  Claim C4 asks that each breakdown sub-score is capped at its maximum, the subscribers
  sub-score at 25. The score itself uses \<^verbatim>\<open>Math.min(25, ...)\<close> and the three other
  breakdown entries are capped, but the breakdown entry for the subscribers is computed
  without the cap: for a million subscribers it is 30.
\<close>

theorem breakdown_subscribers_uncapped:
  "bd_subscribers (breakdown (calculateQualityScore millionSubscribers)) = 30"
  by (simp add: calculateQualityScore_def Let_def millionSubscribers_def scenarioB_def
      Math_log10_million Math_round_numeral)

lemma breakdown_others_capped:
  "bd_reach (breakdown (calculateQualityScore m)) \<le> 30"
  "bd_engagement (breakdown (calculateQualityScore m)) \<le> 25"
  "bd_ci (breakdown (calculateQualityScore m)) \<le> 20"
proof -
  have r: "Math_round (min c y * 100) / 100 \<le> c" if "c = of_int k" for c y :: real and k
  proof -
    have "Math_round (min c y * 100) \<le> Math_round (of_int (k * 100))"
      using that by (intro Math_round_mono) simp
    also have "\<dots> = of_int (k * 100)" by (rule Math_round_int)
    finally show ?thesis using that by simp
  qed
  show "bd_reach (breakdown (calculateQualityScore m)) \<le> 30"
    using r [of 30 30] by (simp add: calculateQualityScore_def Let_def)
  show "bd_engagement (breakdown (calculateQualityScore m)) \<le> 25"
    using r [of 25 25] by (simp add: calculateQualityScore_def Let_def)
  show "bd_ci (breakdown (calculateQualityScore m)) \<le> 20"
    using r [of 20 20] by (simp add: calculateQualityScore_def Let_def)
qed

lemma modifiers_eq:
  "mod_category (modifiers (calculateQualityScore m))
     = lookup_or categoryMultipliers (categoryM m) 1"
  "mod_verified (modifiers (calculateQualityScore m)) = (if verifiedM m then 11 / 10 else 1)"
  "mod_err (modifiers (calculateQualityScore m))
     = (if errPercent m > 5 then 1 - (errPercent m / 100) * (5 / 10) else 1)"
  by (simp_all add: calculateQualityScore_def Let_def)

text \<open>
  Claim C5, as stated, caps the ERR percentage at 100 inside the penalty, so that the
  multiplier never falls below one half. The code has no such cap: at an ERR of 150
  percent the reported multiplier is one quarter.
\<close>

theorem err_multiplier_uncapped:
  "mod_err (modifiers (calculateQualityScore err150))
     \<noteq> 1 - min (errPercent err150) 100 / 100 * (5 / 10)
   \<and> mod_err (modifiers (calculateQualityScore err150)) = 1 / 4
   \<and> overall (calculateQualityScore err150) = Num 10"
proof -
  have f: "errPercent err150 = 150" "categoryM err150 = ''unknown''" "\<not> verifiedM err150"
    by (simp_all add: err150_def scenarioB_def)
  have w: "spec_totalWeight err150 = 3 / 10" "spec_weightedSum err150 = 12 / 100"
    by (simp_all add: spec_totalWeight_def spec_weightedSum_def err150_def scenarioB_def)
  show ?thesis
    by (simp add: modifiers_eq overall_eq f w lookup_unknown Math_round_numeral)
qed

text \<open>
  Claim C5, amended. The multiplier reported in \<^verbatim>\<open>modifiers.err\<close> is
  \<open>1 - errPercent / 100 * 0.5\<close> when the ERR percentage exceeds 5 and 1 otherwise, with no
  cap on the percentage; up to 100 percent it is the capped formula of the claim and at
  least one half. It is the multiplier applied: when some weight is included, the overall
  score is the rounded clamp of the weighted sum times the three reported modifiers over
  the total weight (\<^verbatim>\<open>NaN\<close> when the category modifier is not a number), and 0 otherwise.
\<close>

theorem err_multiplier:
  "mod_err (modifiers (calculateQualityScore m))
     = (if errPercent m > 5 then 1 - errPercent m / 100 * (5 / 10) else 1)
   \<and> (5 < errPercent m \<and> errPercent m \<le> 100 \<longrightarrow>
        mod_err (modifiers (calculateQualityScore m))
          = 1 - min (errPercent m) 100 / 100 * (5 / 10)
        \<and> 5 / 10 \<le> mod_err (modifiers (calculateQualityScore m)))
   \<and> (errPercent m \<le> 5 \<longrightarrow> mod_err (modifiers (calculateQualityScore m)) = 1)
   \<and> overall (calculateQualityScore m)
       = (if spec_totalWeight m > 0
          then arith (\<lambda>c. Math_round (min 100 (max 0 (spec_weightedSum m * c
                             * mod_verified (modifiers (calculateQualityScore m))
                             * mod_err (modifiers (calculateQualityScore m))
                             / spec_totalWeight m * 100)) * 100) / 100)
                 (toNumber (mod_category (modifiers (calculateQualityScore m))))
          else Num 0)"
proof -
  have e: "mod_err (modifiers (calculateQualityScore m))
             = (if errPercent m > 5 then 1 - errPercent m / 100 * (5 / 10) else 1)"
    by (simp add: modifiers_eq)
  have o: "overall (calculateQualityScore m)
       = (if spec_totalWeight m > 0
          then arith (\<lambda>c. Math_round (min 100 (max 0 (spec_weightedSum m * c
                             * mod_verified (modifiers (calculateQualityScore m))
                             * mod_err (modifiers (calculateQualityScore m))
                             / spec_totalWeight m * 100)) * 100) / 100)
                 (toNumber (mod_category (modifiers (calculateQualityScore m))))
          else Num 0)"
    by (simp only: modifiers_eq overall_eq)
  show ?thesis
    using e by (intro conjI o) auto
qed

theorem err_multiplier_witness:
  "5 < errPercent err50 \<and> errPercent err50 \<le> 100
   \<and> mod_err (modifiers (calculateQualityScore err50)) = 3 / 4
   \<and> \<not> errPercent scenarioB > 5
   \<and> mod_err (modifiers (calculateQualityScore scenarioB)) = 1"
  using err_multiplier [of err50] err_multiplier [of scenarioB]
  by (simp add: err50_def scenarioB_def)

section \<open>Properties of estimateAdPrice\<close>

lemma baseCpm_Num:
  assumes "lookup_or categoryMultipliers (categoryM m) 1 = Number v" and "overall q = Num v'"
  shows "baseCpm m q
           = Num ((if subscribers m > 100000 then 100 * (15 / 10)
                   else if subscribers m > 50000 then 100 * (13 / 10)
                   else if subscribers m > 10000 then 100 * (11 / 10)
                   else if subscribers m < 1000 then 100 * (5 / 10)
                   else 100)
                  * v * (5 / 10 + v' / 100)
                  * (if engagementRate m > 15 then 14 / 10
                     else if engagementRate m > 10 then 12 / 10
                     else if engagementRate m < 3 then 8 / 10
                     else 1)
                  * (if verifiedM m then 12 / 10 else 1))"
  by (simp add: baseCpm_def Let_def assms)

lemma baseCpm_NaN:
  assumes "lookup_or categoryMultipliers (categoryM m) 1 = Inherited"
  shows "baseCpm m q = NaN"
  by (simp add: baseCpm_def Let_def assms)

lemma baseCpm_nonneg:
  assumes "categoryM m \<notin> set objectPrototypeKeys" and "overall q = Num v'" and "- 50 \<le> v'"
  shows "\<exists>b. baseCpm m q = Num b \<and> 0 \<le> b"
proof -
  from assms(1) obtain v where v: "lookup_or categoryMultipliers (categoryM m) 1 = Number v"
    and p: "0 < v" using lookup_own by blast
  have q: "0 \<le> 5 / 10 + v' / 100" using assms(3) by simp
  have c: "0 \<le> v" using p by simp
  show ?thesis
    unfolding baseCpm_Num [OF v assms(2)] using q c by (auto intro!: mult_nonneg_nonneg)
qed

lemma price_range_ordered:
  assumes "categoryM m \<notin> set objectPrototypeKeys" and "overall q = Num v'" and "- 50 \<le> v'"
  shows "\<exists>b lo av hi.
           baseCpm m q = Num b
         \<and> cpm_min (cpm (estimateAdPrice m q)) = Num lo
         \<and> cpm_avg (cpm (estimateAdPrice m q)) = Num av
         \<and> cpm_max (cpm (estimateAdPrice m q)) = Num hi
         \<and> lo \<le> av \<and> av \<le> hi
         \<and> lo = Math_round (b * (7 / 10)) \<and> hi = Math_round (b * (13 / 10))
         \<and> av = Math_round b
         \<and> \<bar>lo - Math_round (7 / 10 * av)\<bar> \<le> 1
         \<and> \<bar>hi - Math_round (13 / 10 * av)\<bar> \<le> 1"
proof -
  from baseCpm_nonneg [OF assms] obtain b where bb: "baseCpm m q = Num b" and b: "0 \<le> b"
    by blast
  have lo: "Math_round (b * (7 / 10)) \<le> Math_round b"
    using b by (intro Math_round_mono) simp
  have hi: "Math_round b \<le> Math_round (b * (13 / 10))"
    using b by (intro Math_round_mono) simp
  have d: "\<bar>Math_round b - b\<bar> \<le> 1 / 2" by (rule Math_round_dist)
  have "\<bar>b * (7 / 10) - 7 / 10 * Math_round b\<bar> < 1" using d by linarith
  then have tlo: "\<bar>Math_round (b * (7 / 10)) - Math_round (7 / 10 * Math_round b)\<bar> \<le> 1"
    by (rule Math_round_near)
  have "\<bar>b * (13 / 10) - 13 / 10 * Math_round b\<bar> < 1" using d by linarith
  then have thi: "\<bar>Math_round (b * (13 / 10)) - Math_round (13 / 10 * Math_round b)\<bar> \<le> 1"
    by (rule Math_round_near)
  show ?thesis
    using lo hi tlo thi by (simp add: estimateAdPrice_def Let_def bb)
qed

lemma price_range_ordered_scenarioB:
  "cpm_min (cpm (estimateAdPrice scenarioB score50)) = Num 28
   \<and> cpm_avg (cpm (estimateAdPrice scenarioB score50)) = Num 40
   \<and> cpm_max (cpm (estimateAdPrice scenarioB score50)) = Num 52"
proof -
  have l: "lookup_or categoryMultipliers (categoryM scenarioB) 1 = Number 1"
    by (simp add: scenarioB_def lookup_unknown)
  have o: "overall score50 = Num 50" by (simp add: score50_def)
  have b: "baseCpm scenarioB score50 = Num 40"
    unfolding baseCpm_Num [OF l o] by (simp add: scenarioB_def)
  show ?thesis
    by (simp add: estimateAdPrice_def Let_def b Math_round_numeral)
qed

text \<open>
  Claim C8 asks that the price range is ordered, minimum below average below maximum,
  with the minimum and the maximum the roundings of 0.7 and 1.3 times the average up to
  the rounding. The code computes the three as the roundings of 0.7, 1 and 1.3 times the
  base, and for a non-negative base they are ordered and within one unit of the roundings
  of 0.7 and 1.3 times the average (\<open>price_range_ordered\<close>): that is the case whenever the
  category does not name a member inherited from \<^verbatim>\<open>Object.prototype\<close> and the overall
  score is a number of at least -50. For an inherited name the lookup of the multiplier
  returns the member and the three prices are \<^verbatim>\<open>NaN\<close>, which are not ordered: so for
  Scenario B in the category \<^verbatim>\<open>toString\<close> with a quality score of 50.
\<close>

theorem price_nan_for_inherited_category:
  "cpm_min (cpm (estimateAdPrice toStringScenarioB score50)) = NaN
   \<and> cpm_avg (cpm (estimateAdPrice toStringScenarioB score50)) = NaN
   \<and> cpm_max (cpm (estimateAdPrice toStringScenarioB score50)) = NaN"
proof -
  have "categoryM toStringScenarioB = ''toString''"
    by (simp add: toStringScenarioB_def scenarioB_def)
  then have "baseCpm toStringScenarioB score50 = NaN"
    by (intro baseCpm_NaN) (simp add: lookup_toString)
  then show ?thesis by (simp add: estimateAdPrice_def Let_def)
qed

text \<open>
  Claim C3, as stated, prices Scenario B (no subscribers, every metric zero) with a
  subscriber-tier factor of 1.0, which would give a base of 40. In the code 0 is below
  1000, the factor is 0.5, and the base is 20.
\<close>

theorem scenarioB_tier_not_one:
  "baseCpm scenarioB (calculateQualityScore scenarioB)
     \<noteq> Num (100 * 1 * 1 * (5 / 10 + 0 / 100) * (8 / 10))
   \<and> cpm_avg (cpm (estimateAdPrice scenarioB (calculateQualityScore scenarioB))) = Num 20
   \<and> Math_round (100 * 1 * 1 * (5 / 10 + 0 / 100) * (8 / 10)) = 40"
proof -
  have w: "spec_totalWeight scenarioB = 0"
    by (simp add: spec_totalWeight_def scenarioB_def)
  have o: "overall (calculateQualityScore scenarioB) = Num 0"
    by (simp add: overall_eq w)
  have l: "lookup_or categoryMultipliers (categoryM scenarioB) 1 = Number 1"
    by (simp add: scenarioB_def lookup_unknown)
  have b: "baseCpm scenarioB (calculateQualityScore scenarioB) = Num 20"
    unfolding baseCpm_Num [OF l o] by (simp add: scenarioB_def)
  show ?thesis
    by (simp add: estimateAdPrice_def Let_def b Math_round_numeral)
qed

text \<open>
  Claim C3, amended. When the subscriber count and the three other driving metrics are
  zero, the overall score is 0, every breakdown entry is 0, and the price range is
  derived from the base 100 times the subscriber-tier factor 0.5 (0 subscribers are in
  the tier below 1000), the category multiplier, the quality multiplier 0.5, the
  engagement-tier factor 0.8 and the verified factor.
\<close>

theorem scenarioB_score_and_price:
  assumes "subscribers m = 0" and "reachPercentage m = 0"
    and "engagementRate m = 0" and "ciIndex m = 0"
  shows "overall (calculateQualityScore m) = Num 0
       \<and> breakdown (calculateQualityScore m)
           = \<lparr> bd_subscribers = 0, bd_reach = 0, bd_engagement = 0, bd_ci = 0 \<rparr>
       \<and> baseCpm m (calculateQualityScore m)
           = arith (\<lambda>c. 100 * (5 / 10) * c * (5 / 10 + 0 / 100) * (8 / 10)
                          * (if verifiedM m then 12 / 10 else 1))
               (toNumber (lookup_or categoryMultipliers (categoryM m) 1))
       \<and> cpm_min (cpm (estimateAdPrice m (calculateQualityScore m)))
           = arith (\<lambda>b. Math_round (b * (7 / 10))) (baseCpm m (calculateQualityScore m))
       \<and> cpm_avg (cpm (estimateAdPrice m (calculateQualityScore m)))
           = arith Math_round (baseCpm m (calculateQualityScore m))
       \<and> cpm_max (cpm (estimateAdPrice m (calculateQualityScore m)))
           = arith (\<lambda>b. Math_round (b * (13 / 10))) (baseCpm m (calculateQualityScore m))"
proof -
  have w: "spec_totalWeight m = 0"
    using assms by (simp add: spec_totalWeight_def)
  have o: "overall (calculateQualityScore m) = Num 0"
    by (simp add: overall_eq w)
  have b: "breakdown (calculateQualityScore m)
           = \<lparr> bd_subscribers = 0, bd_reach = 0, bd_engagement = 0, bd_ci = 0 \<rparr>"
    using assms by (simp add: calculateQualityScore_def Let_def Math_round_zero)
  have c: "baseCpm m (calculateQualityScore m)
           = arith (\<lambda>c. 100 * (5 / 10) * c * (5 / 10 + 0 / 100) * (8 / 10)
                          * (if verifiedM m then 12 / 10 else 1))
               (toNumber (lookup_or categoryMultipliers (categoryM m) 1))"
  proof (cases "lookup_or categoryMultipliers (categoryM m) 1")
    case (Number v)
    show ?thesis
      unfolding baseCpm_Num [OF Number o] using assms by (simp add: Number)
  next
    case Inherited
    then show ?thesis by (simp add: baseCpm_NaN)
  qed
  show ?thesis
    by (intro conjI o b c) (simp_all add: estimateAdPrice_def Let_def)
qed

theorem scenarioB_score_and_price_witness:
  "subscribers scenarioB = 0 \<and> reachPercentage scenarioB = 0
   \<and> engagementRate scenarioB = 0 \<and> ciIndex scenarioB = 0
   \<and> overall (calculateQualityScore scenarioB) = Num 0
   \<and> cpm_min (cpm (estimateAdPrice scenarioB (calculateQualityScore scenarioB))) = Num 14
   \<and> cpm_avg (cpm (estimateAdPrice scenarioB (calculateQualityScore scenarioB))) = Num 20
   \<and> cpm_max (cpm (estimateAdPrice scenarioB (calculateQualityScore scenarioB))) = Num 26"
proof -
  have h: "subscribers scenarioB = 0" "reachPercentage scenarioB = 0"
    "engagementRate scenarioB = 0" "ciIndex scenarioB = 0"
    by (simp_all add: scenarioB_def)
  have v: "categoryM scenarioB = ''unknown''" "\<not> verifiedM scenarioB"
    by (simp_all add: scenarioB_def)
  show ?thesis
    using scenarioB_score_and_price [OF h] h
    by (simp add: v lookup_unknown Math_round_numeral)
qed

section \<open>Properties of calculateChannelMetrics\<close>

text \<open>
  Claim C6, as stated, computes the posts per day from the count whenever the count is
  supplied, the value 0 included. The code tests the count for truthiness: for a week
  with 0 posts the result is 1, not 0.
\<close>

theorem zero_posts_counts_as_absent:
  "map_sum id postsPerDay (calculateChannelMetrics (Some emptySnapshot) (Some zeroPosts))
     = Inr 1
   \<and> map_sum id postsPerDay (calculateChannelMetrics (Some emptySnapshot) (Some zeroPosts))
     \<noteq> Inr (Math_round (0 / 7 * 10) / 10)"
  by (simp add: Let_def zeroPosts_def emptyStats_def Math_round_numeral Math_round_zero)

text \<open>
  Claim C6, amended. When the statistics hold a posts count other than 0, the posts per
  day are the count over the period, rounded to one decimal place, the period being 7
  when it is absent or 0; when the count is absent or 0, or there are no statistics, the
  posts per day are 1.
\<close>

theorem posts_per_day:
  "\<exists>m. calculateChannelMetrics (Some channelData) (Some statsData) = Inr m
     \<and> (\<forall>p. posts_count statsData = Some p \<and> p \<noteq> 0 \<longrightarrow>
           postsPerDay m = Math_round (p / or_num (period statsData) 7 * 10) / 10)
     \<and> (posts_count statsData = None \<or> posts_count statsData = Some 0 \<longrightarrow>
           postsPerDay m = 1)
     \<and> (period statsData = None \<or> period statsData = Some 0 \<longrightarrow>
           or_num (period statsData) 7 = 7)
     \<and> map_sum id postsPerDay (calculateChannelMetrics (Some channelData) None) = Inr 1"
  by (auto simp add: Let_def or_num_def Math_round_numeral)

theorem posts_per_day_witness:
  "\<exists>m. calculateChannelMetrics (Some emptySnapshot) (Some fourteenPosts) = Inr m
     \<and> posts_count fourteenPosts = Some 14 \<and> period fourteenPosts = None
     \<and> postsPerDay m = 2"
proof -
  have p: "posts_count fourteenPosts = Some 14" "period fourteenPosts = None"
    by (simp_all add: fourteenPosts_def emptyStats_def)
  have r: "Math_round (14 / 7 * 10) / 10 = 2"
    by (simp add: Math_round_numeral)
  from posts_per_day [of emptySnapshot fourteenPosts] obtain m
    where m: "calculateChannelMetrics (Some emptySnapshot) (Some fourteenPosts) = Inr m"
      and d: "\<forall>p. posts_count fourteenPosts = Some p \<and> p \<noteq> 0 \<longrightarrow>
                postsPerDay m = Math_round (p / or_num (period fourteenPosts) 7 * 10) / 10"
    by blast
  have "postsPerDay m = 2"
    using d p r by (simp add: or_num_def)
  with m p show ?thesis by blast
qed

text \<open>
  Claim C10. In \<^const>\<open>calculateChannelMetrics\<close> a snapshot reach that is absent or 0 gives
  way to a positive reach of the statistics, and a snapshot citation index that is absent
  or 0 gives way to a positive index of the statistics (reported rounded to two decimal
  places): the fallback is taken on a falsy value, not only on a missing key.
\<close>

theorem falsy_snapshot_value_falls_back:
  "\<exists>m. calculateChannelMetrics (Some channelData) (Some statsData) = Inr m
     \<and> (\<forall>v. (avg_post_reach channelData = None \<or> avg_post_reach channelData = Some 0)
            \<and> stats_avg_post_reach statsData = Some v \<and> v > 0 \<longrightarrow> avgReach m = v)
     \<and> (\<forall>c. (ci_index channelData = None \<or> ci_index channelData = Some 0)
            \<and> stats_ci_index statsData = Some c \<and> c > 0 \<longrightarrow>
            ciIndex m = Math_round (c * 100) / 100)"
  by (auto simp add: Let_def or_num_def)

theorem falsy_snapshot_value_falls_back_witness:
  "\<exists>m. calculateChannelMetrics (Some zeroReachChannel) (Some reachStats) = Inr m
     \<and> avg_post_reach zeroReachChannel = Some 0 \<and> ci_index zeroReachChannel = Some 0
     \<and> avgReach m = 500 \<and> ciIndex m = 3"
proof -
  have c: "avg_post_reach zeroReachChannel = Some 0" "ci_index zeroReachChannel = Some 0"
    by (simp_all add: zeroReachChannel_def emptySnapshot_def)
  have s: "stats_avg_post_reach reachStats = Some 500" "stats_ci_index reachStats = Some 3"
    by (simp_all add: reachStats_def emptyStats_def)
  have r: "Math_round (3 * 100) / 100 = 3"
    by (simp add: Math_round_numeral)
  from falsy_snapshot_value_falls_back [of zeroReachChannel reachStats] obtain m
    where m: "calculateChannelMetrics (Some zeroReachChannel) (Some reachStats) = Inr m"
      and a: "\<forall>v. (avg_post_reach zeroReachChannel = None
                     \<or> avg_post_reach zeroReachChannel = Some 0)
                  \<and> stats_avg_post_reach reachStats = Some v \<and> v > 0 \<longrightarrow> avgReach m = v"
      and i: "\<forall>c. (ci_index zeroReachChannel = None \<or> ci_index zeroReachChannel = Some 0)
                  \<and> stats_ci_index reachStats = Some c \<and> c > 0 \<longrightarrow>
                  ciIndex m = Math_round (c * 100) / 100"
    by blast
  have "avgReach m = 500" using a c s by simp
  moreover have "ciIndex m = 3" using i c s r by simp
  ultimately show ?thesis using m c by blast
qed

section \<open>Properties of analyzeChannel\<close>

text \<open>
  Claim C9. \<^const>\<open>analyzeChannel\<close> does not validate: on every snapshot it returns a
  success, also where \<^const>\<open>validateAnalysisData\<close> rejects the snapshot. For a negative
  subscriber count the metrics carry that negative count, and a missing username is
  accepted.
\<close>

theorem analyzeChannel_never_validates:
  "success (analyzeChannel (Some channelData) statsData)
   \<and> error (analyzeChannel (Some channelData) statsData) = None
   \<and> (\<forall>n. participants_count channelData = Some n \<and> n < 0 \<longrightarrow>
         isl (validateAnalysisData (Some channelData))
         \<and> map_option subscribers (metrics (analyzeChannel (Some channelData) statsData))
             = Some n)
   \<and> (username channelData = None \<longrightarrow>
         validateAnalysisData (Some channelData) = Inl NoUsername)"
  by (auto simp add: analyzeChannel_def Let_def validateAnalysisData_def or_num_def)

theorem analyzeChannel_never_validates_witness:
  "participants_count negativeChannel = Some (- 5) \<and> username negativeChannel = None
   \<and> success (analyzeChannel (Some negativeChannel) None)
   \<and> map_option subscribers (metrics (analyzeChannel (Some negativeChannel) None))
       = Some (- 5)
   \<and> validateAnalysisData (Some negativeChannel) = Inl NoUsername"
proof -
  have c: "participants_count negativeChannel = Some (- 5)" "username negativeChannel = None"
    by (simp_all add: negativeChannel_def emptySnapshot_def)
  show ?thesis
    using analyzeChannel_never_validates [of negativeChannel None] c by simp
qed

section \<open>Properties of compareChannels\<close>

lemma js_error_unique: "(e::js_error) = TypeError"
  by (cases e) simp

lemma unranked_spread_rank: "unranked (spread_rank a r) = a"
  by (simp add: unranked_def spread_rank_def)

lemma scoreOf_unranked: "scoreOf (unranked c) = scoreOf c"
  by (simp add: scoreOf_def unranked_def)

lemma finiteScore_unranked: "finiteScore (unranked c) = finiteScore c"
  by (simp add: finiteScore_def scoreOf_unranked)

lemma analyzeChannel_Some:
  "\<exists>m. calculateChannelMetrics (Some c) st = Inr m
     \<and> categoryM m = or_str (category c) ''unknown''
     \<and> success (analyzeChannel (Some c) st)
     \<and> metrics (analyzeChannel (Some c) st) = Some m
     \<and> qualityScore (analyzeChannel (Some c) st) = Some (calculateQualityScore m)
     \<and> priceEstimate (analyzeChannel (Some c) st)
         = Some (estimateAdPrice m (calculateQualityScore m))"
  by (simp add: analyzeChannel_def Let_def)

lemma analyzeChannel_None:
  "\<not> success (analyzeChannel None st)"
  "metrics (analyzeChannel None st) = None"
  "qualityScore (analyzeChannel None st) = None"
  by (simp_all add: analyzeChannel_def failureResult_def)

lemma analyzeChannel_finite_score:
  assumes "or_str (category c) ''unknown'' \<notin> set objectPrototypeKeys"
  shows "\<exists>r. scoreOf (analyzeChannel (Some c) st) = Num r"
proof -
  from analyzeChannel_Some [of c st] obtain m
    where m: "categoryM m = or_str (category c) ''unknown''"
      and q: "qualityScore (analyzeChannel (Some c) st) = Some (calculateQualityScore m)"
    by blast
  from assms m have "categoryM m \<notin> set objectPrototypeKeys" by simp
  then obtain r where "overall (calculateQualityScore m) = Num r"
    using overall_in_range_own_category by blast
  then show ?thesis by (simp add: scoreOf_def q)
qed

lemma compareByScore_Num:
  assumes "scoreOf x = Num a" and "scoreOf y = Num b"
  shows "compareByScore x y = Inr (Num (b - a))"
  using assms by (simp add: compareByScore_def scoreOf_def split: option.splits)

lemma sort_insert_insort:
  assumes "\<exists>r. scoreOf x = Num r" and "\<forall>y\<in>set ys. \<exists>r. scoreOf y = Num r"
  shows "sort_insert compareByScore x ys = Inr (insort_key (\<lambda>c. - finiteScore c) x ys)"
  using assms
proof (induction ys)
  case Nil
  then show ?case by simp
next
  case (Cons y ys)
  from Cons.prems obtain a b where s: "scoreOf x = Num a" "scoreOf y = Num b"
    by auto
  have c: "compareByScore x y = Inr (Num (b - a))"
    using s by (rule compareByScore_Num)
  have f: "finiteScore x = a" "finiteScore y = b"
    by (simp_all add: finiteScore_def s)
  have ih: "sort_insert compareByScore x ys = Inr (insort_key (\<lambda>c. - finiteScore c) x ys)"
    using Cons by simp
  show ?case
    by (simp add: c f ih)
qed

lemma Array_sort_sort_key:
  assumes "\<forall>c\<in>set xs. \<exists>r. scoreOf c = Num r"
  shows "Array_sort compareByScore xs = Inr (sort_key (\<lambda>c. - finiteScore c) xs)"
  using assms
  by (induction xs) (simp_all add: sort_insert_insort)

lemma sort_insert_set:
  "sort_insert cmp x ys = Inr zs \<Longrightarrow> set zs = insert x (set ys)"
proof (induction ys arbitrary: zs)
  case Nil
  then show ?case by auto
next
  case (Cons y ys)
  show ?case
  proof (cases "cmp x y")
    case (Inl e)
    with Cons.prems show ?thesis by simp
  next
    case (Inr c)
    show ?thesis
    proof (cases "sortCompare c \<le> 0")
      case True
      with Inr Cons.prems show ?thesis by auto
    next
      case False
      show ?thesis
      proof (cases "sort_insert cmp x ys")
        case (Inl e)
        with Inr False Cons.prems show ?thesis by simp
      next
        case r: (Inr ws)
        then have "set ws = insert x (set ys)" by (rule Cons.IH)
        moreover have "zs = y # ws" using Inr False r Cons.prems by simp
        ultimately show ?thesis by auto
      qed
    qed
  qed
qed

lemma Array_sort_set: "Array_sort cmp xs = Inr ys \<Longrightarrow> set ys = set xs"
proof (induction xs arbitrary: ys)
  case Nil
  then show ?case by simp
next
  case (Cons x xs)
  show ?case
  proof (cases "Array_sort cmp xs")
    case (Inl e)
    with Cons.prems show ?thesis by simp
  next
    case (Inr ws)
    then have "set ws = set xs" by (rule Cons.IH)
    moreover have "sort_insert cmp x ws = Inr ys" using Inr Cons.prems by simp
    then have "set ys = insert x (set ws)" by (rule sort_insert_set)
    ultimately show ?thesis by simp
  qed
qed

lemma map_enumerate_rank:
  assumes "\<And>item r. g (item\<lparr>rank := r\<rparr>) = g item"
  shows "map g (map (\<lambda>(index, item). item\<lparr>rank := index + 1\<rparr>) (enumerate n xs)) = map g xs"
  by (induction xs arbitrary: n) (simp_all add: assms)

lemma map_assignRanks:
  assumes "\<And>item r. g (item\<lparr>rank := r\<rparr>) = g item"
  shows "map g (assignRanks xs) = map g xs"
  unfolding assignRanks_def using assms by (rule map_enumerate_rank)

lemma rank_enumerate:
  "map rank (map (\<lambda>(index, item). item\<lparr>rank := index + 1\<rparr>) (enumerate n xs))
     = [Suc n..<Suc (n + length xs)]"
proof (induction xs arbitrary: n)
  case Nil
  show ?case by simp
next
  case (Cons x xs)
  have "[Suc n..<Suc (n + length (x # xs))] = Suc n # [Suc (Suc n)..<Suc (Suc n + length xs)]"
    by (subst upt_conv_Cons) simp_all
  then show ?case using Cons [of "Suc n"] by simp
qed

lemma rank_assignRanks: "map rank (assignRanks xs) = [1..<Suc (length xs)]"
  using rank_enumerate [of 0 xs] by (simp add: assignRanks_def)

lemma length_assignRanks: "length (assignRanks xs) = length xs"
  by (simp add: assignRanks_def)

lemma addToCategory_ok:
  assumes "metrics c \<noteq> None" and "qualityScore c \<noteq> None" and "priceEstimate c \<noteq> None"
  shows "\<exists>r. addToCategory cats c = Inr r"
proof -
  from assms obtain m q p where "metrics c = Some m" "qualityScore c = Some q"
    "priceEstimate c = Some p" by auto
  then show ?thesis by (simp add: addToCategory_def Let_def)
qed

lemma addToCategory_fails:
  assumes "metrics c = None"
  shows "addToCategory cats c = Inl TypeError"
  using assms by (simp add: addToCategory_def)

lemma addAllToCategories_ok:
  assumes "\<forall>c\<in>set xs. metrics c \<noteq> None \<and> qualityScore c \<noteq> None \<and> priceEstimate c \<noteq> None"
  shows "\<exists>r. addAllToCategories cats xs = Inr r"
  using assms
proof (induction xs arbitrary: cats)
  case Nil
  show ?case by simp
next
  case (Cons x xs)
  then obtain r where "addToCategory cats x = Inr r"
    using addToCategory_ok [of x cats] by auto
  moreover have "\<exists>r'. addAllToCategories r xs = Inr r'" using Cons by simp
  ultimately show ?case by simp
qed

lemma addAllToCategories_fails:
  assumes "\<exists>c\<in>set xs. metrics c = None"
  shows "addAllToCategories cats xs = Inl TypeError"
  using assms
proof (induction xs arbitrary: cats)
  case Nil
  then show ?case by simp
next
  case (Cons x xs)
  show ?case
  proof (cases "addToCategory cats x")
    case (Inl e)
    then show ?thesis by (simp add: js_error_unique [of e])
  next
    case (Inr cats')
    then have "metrics x \<noteq> None" using addToCategory_fails [of x cats] by auto
    with Cons.prems have "\<exists>c\<in>set xs. metrics c = None" by auto
    then show ?thesis using Inr Cons.IH by simp
  qed
qed

lemma reduce_sum_ok:
  assumes "\<forall>c\<in>set xs. f c \<noteq> None"
  shows "\<exists>v. reduce_sum f acc xs = Inr v"
  using assms
  by (induction xs arbitrary: acc) auto


lemma list_all_assignRanks:
  assumes "\<And>item r. P (item\<lparr>rank := r\<rparr>) = P item" and "\<forall>c\<in>set xs. P c"
  shows "\<forall>c\<in>set (assignRanks xs). P c"
proof -
  have "map P (assignRanks xs) = map P xs" using assms(1) by (rule map_assignRanks)
  then have "set (map P (assignRanks xs)) = set (map P xs)" by simp
  then have "P ` set (assignRanks xs) = P ` set xs" by simp
  with assms(2) show ?thesis by (metis (full_types) image_iff)
qed


lemma compareChannels_report:
  assumes "Array_sort compareByScore
             (map (\<lambda>ch. spread_rank (analyzeChannel (info ch) (stats ch)) 0) batch)
           = Inr ordered"
    and "\<forall>c\<in>set ordered. metrics c \<noteq> None \<and> qualityScore c \<noteq> None \<and> priceEstimate c \<noteq> None"
  shows "\<exists>sm. compareChannels batch = Inr \<lparr> channels = assignRanks ordered, summary = sm \<rparr>"
proof -
  let ?ranked = "assignRanks ordered"
  let ?P = "\<lambda>c::Comparison. metrics c \<noteq> None \<and> qualityScore c \<noteq> None
              \<and> priceEstimate c \<noteq> None"
  have rk: "\<forall>c\<in>set ?ranked. ?P c"
    using assms(2) by (intro list_all_assignRanks) simp_all
  then have "\<exists>r. addAllToCategories Map.empty ?ranked = Inr r"
    by (rule addAllToCategories_ok)
  then obtain cats where "addAllToCategories Map.empty ?ranked = Inr cats" ..
  then have cat: "calculateCategoryStats ?ranked
                    = Inr (\<lambda>k. map_option averageCategory (cats k))"
    by (simp add: calculateCategoryStats_def)
  have "\<exists>v. reduce_sum (\<lambda>ch. map_option overall (qualityScore ch)) (Num 0) ?ranked = Inr v"
    by (rule reduce_sum_ok) (use rk in simp)
  then obtain s1
    where s1: "reduce_sum (\<lambda>ch. map_option overall (qualityScore ch)) (Num 0) ?ranked
                 = Inr s1" ..
  have "\<exists>v. reduce_sum (\<lambda>ch. map_option (\<lambda>m. Num (subscribers m)) (metrics ch)) (Num 0)
              ?ranked = Inr v"
    by (rule reduce_sum_ok) (use rk in simp)
  then obtain s2
    where s2: "reduce_sum (\<lambda>ch. map_option (\<lambda>m. Num (subscribers m)) (metrics ch)) (Num 0)
                 ?ranked = Inr s2" ..
  have "\<exists>v. reduce_sum (\<lambda>ch. map_option (\<lambda>m. Num (reachPercentage m)) (metrics ch))
              (Num 0) ?ranked = Inr v"
    by (rule reduce_sum_ok) (use rk in simp)
  then obtain s3
    where s3: "reduce_sum (\<lambda>ch. map_option (\<lambda>m. Num (reachPercentage m)) (metrics ch))
                 (Num 0) ?ranked = Inr s3" ..
  show ?thesis
    unfolding compareChannels_def Let_def
    by (simp only: assms(1) cat s1 s2 s3 sum.case) blast
qed

lemma compareChannels_raises_on_failure:
  assumes "\<exists>ch\<in>set batch. info ch = None"
  shows "compareChannels batch = Inl TypeError"
proof -
  let ?cs = "map (\<lambda>ch. spread_rank (analyzeChannel (info ch) (stats ch)) 0) batch"
  from assms obtain ch where ch: "ch \<in> set batch" "info ch = None" by blast
  let ?c = "spread_rank (analyzeChannel (info ch) (stats ch)) 0"
  have none: "metrics ?c = None"
    using ch by (simp add: spread_rank_def analyzeChannel_None)
  have mem: "?c \<in> set ?cs"
    using ch(1) by simp
  show ?thesis
  proof (cases "Array_sort compareByScore ?cs")
    case (Inl e)
    then show ?thesis by (simp add: compareChannels_def js_error_unique [of e])
  next
    case (Inr ordered)
    then have "set ordered = set ?cs" by (rule Array_sort_set)
    with mem have "?c \<in> set ordered" by simp
    then have "metrics ?c \<in> set (map metrics ordered)" by (simp only: set_map image_eqI)
    then have "None \<in> set (map metrics ordered)" by (simp only: none)
    then have "None \<in> set (map metrics (assignRanks ordered))"
      by (simp add: map_assignRanks)
    then have "\<exists>c\<in>set (assignRanks ordered). metrics c = None" by force
    then have "calculateCategoryStats (assignRanks ordered) = Inl TypeError"
      by (simp add: calculateCategoryStats_def addAllToCategories_fails)
    then show ?thesis using Inr by (simp add: compareChannels_def)
  qed
qed

text \<open>
  Claim C1 asks that a batch of three channels of which one fails analysis yields a
  report of three entries, the failing one left out of the averages and of the category
  aggregates, and that a failure never makes \<^const>\<open>compareChannels\<close> raise. The code reads
  \<^verbatim>\<open>qualityScore.overall\<close>, \<^verbatim>\<open>metrics\<close> and \<^verbatim>\<open>priceEstimate\<close> of every entry without
  testing \<^verbatim>\<open>success\<close>: with a channel without data in the batch (the only way for
  \<^const>\<open>analyzeChannel\<close> to fail) it throws a \<^verbatim>\<open>TypeError\<close>, here for the batch whose
  second channel has no data, and by \<open>compareChannels_raises_on_failure\<close> for every such
  batch.
\<close>

theorem failing_entry_makes_compareChannels_throw:
  "compareChannels failingBatch = Inl TypeError"
  by (rule compareChannels_raises_on_failure) (simp add: failingBatch_def)

lemma filter_score_unranked:
  "map unranked (filter (\<lambda>c. finiteScore c = s) xs)
     = filter (\<lambda>a. finiteScore a = s) (map unranked xs)"
  by (induction xs) (simp_all add: finiteScore_unranked)

lemma compareChannels_sorted_stable_ranked:
  assumes "\<forall>ch\<in>set batch. \<exists>c. info ch = Some c
             \<and> or_str (category c) ''unknown'' \<notin> set objectPrototypeKeys"
  shows "\<exists>report. compareChannels batch = Inr report
      \<and> length (channels report) = length batch
      \<and> (\<forall>c\<in>set (channels report). success c \<and> (\<exists>r. scoreOf c = Num r))
      \<and> sorted_wrt (\<lambda>a b. finiteScore a \<ge> finiteScore b) (channels report)
      \<and> (\<forall>s. map unranked (filter (\<lambda>c. finiteScore c = s) (channels report))
             = filter (\<lambda>a. finiteScore a = s)
                 (map (\<lambda>ch. analyzeChannel (info ch) (stats ch)) batch))
      \<and> map rank (channels report) = [1..<Suc (length batch)]"
proof -
  let ?an = "\<lambda>ch. analyzeChannel (info ch) (stats ch)"
  let ?cs = "map (\<lambda>ch. spread_rank (?an ch) 0) batch"
  let ?f = "\<lambda>c::Comparison. - finiteScore c"
  let ?sorted = "sort_key ?f ?cs"
  let ?ranked = "assignRanks ?sorted"
  let ?P = "\<lambda>c::Comparison. success c \<and> metrics c \<noteq> None \<and> qualityScore c \<noteq> None
              \<and> priceEstimate c \<noteq> None \<and> (\<exists>r. scoreOf c = Num r)"
  have an: "?P (spread_rank (?an ch) 0)" if "ch \<in> set batch" for ch
  proof -
    from that assms obtain c where c: "info ch = Some c"
      and k: "or_str (category c) ''unknown'' \<notin> set objectPrototypeKeys" by blast
    from analyzeChannel_finite_score [OF k, of "stats ch"] obtain r
      where r: "scoreOf (analyzeChannel (Some c) (stats ch)) = Num r" ..
    have "scoreOf (spread_rank (analyzeChannel (Some c) (stats ch)) 0) = Num r"
      using r by (simp add: scoreOf_def spread_rank_def)
    moreover from analyzeChannel_Some [of c "stats ch"]
    have "success (analyzeChannel (Some c) (stats ch))
        \<and> metrics (analyzeChannel (Some c) (stats ch)) \<noteq> None
        \<and> qualityScore (analyzeChannel (Some c) (stats ch)) \<noteq> None
        \<and> priceEstimate (analyzeChannel (Some c) (stats ch)) \<noteq> None" by auto
    ultimately show ?thesis by (simp add: c spread_rank_def)
  qed
  then have cs: "\<forall>c\<in>set ?cs. ?P c" by auto
  then have "\<forall>c\<in>set ?cs. \<exists>r. scoreOf c = Num r" by blast
  then have srt: "Array_sort compareByScore ?cs = Inr ?sorted" by (rule Array_sort_sort_key)
  have so: "\<forall>c\<in>set ?sorted. ?P c" using cs by (simp only: set_sort)
  then have "\<forall>c\<in>set ?sorted. metrics c \<noteq> None \<and> qualityScore c \<noteq> None
               \<and> priceEstimate c \<noteq> None" by blast
  with srt have "\<exists>sm. compareChannels batch = Inr \<lparr> channels = ?ranked, summary = sm \<rparr>"
    by (rule compareChannels_report)
  then obtain sm where rep: "compareChannels batch = Inr \<lparr> channels = ?ranked, summary = sm \<rparr>"
    ..
  have rk: "\<forall>c\<in>set ?ranked. ?P c"
    using so by (intro list_all_assignRanks) (simp_all add: scoreOf_def)
  have len: "length ?ranked = length batch"
    by (simp add: length_assignRanks)
  have ok: "\<forall>c\<in>set ?ranked. success c \<and> (\<exists>r. scoreOf c = Num r)" using rk by blast
  have "sorted (map ?f ?sorted)" by (rule sorted_sort_key)
  moreover have "map ?f ?ranked = map ?f ?sorted"
    by (rule map_assignRanks) (simp add: finiteScore_def scoreOf_def)
  ultimately have "sorted (map ?f ?ranked)" by simp
  then have sorted: "sorted_wrt (\<lambda>a b. finiteScore a \<ge> finiteScore b) ?ranked"
    by (simp add: sorted_map)
  have stable: "map unranked (filter (\<lambda>c. finiteScore c = s) ?ranked)
                  = filter (\<lambda>a. finiteScore a = s) (map ?an batch)" for s
  proof -
    have u: "map unranked ?ranked = map unranked ?sorted"
      by (rule map_assignRanks) (simp add: unranked_def)
    have e: "(\<lambda>c::Comparison. finiteScore c = s) = (\<lambda>c. ?f c = - s)" by auto
    have "map unranked (filter (\<lambda>c. finiteScore c = s) ?ranked)
            = filter (\<lambda>a. finiteScore a = s) (map unranked ?ranked)"
      by (rule filter_score_unranked)
    also have "\<dots> = filter (\<lambda>a. finiteScore a = s) (map unranked ?sorted)"
      by (simp only: u)
    also have "\<dots> = map unranked (filter (\<lambda>c. finiteScore c = s) ?sorted)"
      by (rule filter_score_unranked [symmetric])
    also have "\<dots> = map unranked (filter (\<lambda>c. ?f c = - s) ?sorted)"
      by (simp only: e)
    also have "\<dots> = map unranked (filter (\<lambda>c. ?f c = - s) ?cs)"
      by (simp only: sort_key_stable)
    also have "\<dots> = map unranked (filter (\<lambda>c. finiteScore c = s) ?cs)"
      by (simp only: e)
    also have "\<dots> = filter (\<lambda>a. finiteScore a = s) (map unranked ?cs)"
      by (rule filter_score_unranked)
    also have "map unranked ?cs = map ?an batch"
      by (simp add: unranked_spread_rank)
    finally show ?thesis .
  qed
  have ranks: "map rank ?ranked = [1..<Suc (length batch)]"
    by (simp add: rank_assignRanks)
  show ?thesis
    using rep len ok sorted stable ranks
    by (intro exI [of _ "\<lparr> channels = ?ranked, summary = sm \<rparr>"]) simp
qed

lemma compareChannels_sorted_stable_ranked_goodBatch:
  "\<exists>report. compareChannels goodBatch = Inr report
      \<and> length (channels report) = 3
      \<and> map rank (channels report) = [1, 2, 3]"
proof -
  have h: "\<forall>ch\<in>set goodBatch. \<exists>c. info ch = Some c
             \<and> or_str (category c) ''unknown'' \<notin> set objectPrototypeKeys"
    by (simp add: goodBatch_def negativeChannel_def emptySnapshot_def or_str_def
        objectPrototypeKeys_def)
  have l: "length goodBatch = 3" by (simp add: goodBatch_def)
  have u: "[1..<Suc 3] = [1, 2, 3]" by (simp add: upt_rec)
  from compareChannels_sorted_stable_ranked [OF h] l u show ?thesis by auto
qed

lemma metrics_ci_only:
  assumes "c = emptySnapshot\<lparr>username := u, category := k, ci_index := Some (v / 100)\<rparr>"
    and "v = 3 \<or> v = 6"
  shows "calculateChannelMetrics (Some c) None
           = Inr (scenarioB\<lparr>engagementRate := v / 100, ciIndex := v / 100, postsPerDay := 1,
                    categoryM := or_str k ''unknown''\<rparr>)"
  using assms(2)
  by (auto simp add: assms(1) emptySnapshot_def scenarioB_def Let_def or_num_def or_false_def
      or_str_def Math_round_numeral Math_round_zero Math_round_one)

lemma score_ci_only:
  assumes "m = scenarioB\<lparr>engagementRate := v / 100, ciIndex := v / 100, postsPerDay := 1,
                 categoryM := k\<rparr>"
    and "v = 3 \<or> v = 6"
  shows "spec_totalWeight m = 45 / 100" and "spec_weightedSum m = 525 / 100 * (v / 100)"
  using assms(2)
  by (auto simp add: assms(1) spec_totalWeight_def spec_weightedSum_def scenarioB_def)

lemma scoreOf_ci_only:
  assumes "c = emptySnapshot\<lparr>username := u, category := k, ci_index := Some (v / 100)\<rparr>"
    and "v = 3 \<or> v = 6"
  shows "scoreOf (analyzeChannel (Some c) None)
           = arith (\<lambda>x. Math_round (min 100 (max 0 (525 / 100 * (v / 100) * x
                            / (45 / 100) * 100)) * 100) / 100)
               (toNumber (lookup_or categoryMultipliers (or_str k ''unknown'') 1))"
proof -
  let ?m = "scenarioB\<lparr>engagementRate := v / 100, ciIndex := v / 100, postsPerDay := 1,
                     categoryM := or_str k ''unknown''\<rparr>"
  have m: "calculateChannelMetrics (Some c) None = Inr ?m"
    using assms by (rule metrics_ci_only)
  have f: "categoryM ?m = or_str k ''unknown''" "\<not> verifiedM ?m" "errPercent ?m = 0"
    by (simp_all add: scenarioB_def)
  have w: "spec_totalWeight ?m = 45 / 100" "spec_weightedSum ?m = 525 / 100 * (v / 100)"
    using score_ci_only [OF refl assms(2)] by simp_all
  from analyzeChannel_Some [of c None] m
  have "qualityScore (analyzeChannel (Some c) None) = Some (calculateQualityScore ?m)"
    by simp
  then show ?thesis
    by (simp add: scoreOf_def overall_eq w f)
qed

lemma compareByScore_scoreOf:
  assumes "qualityScore x \<noteq> None" and "qualityScore y \<noteq> None"
  shows "compareByScore x y = Inr (arith2 (-) (scoreOf y) (scoreOf x))"
  using assms by (auto simp add: compareByScore_def scoreOf_def)

lemma spread_rank_fields:
  "scoreOf (spread_rank a r) = scoreOf a"
  "metrics (spread_rank a r) = metrics a"
  "qualityScore (spread_rank a r) = qualityScore a"
  "priceEstimate (spread_rank a r) = priceEstimate a"
  by (simp_all add: scoreOf_def spread_rank_def)

text \<open>
  Claim C7 asks that, when every channel of the batch is analysed with success, the
  channel list of the report is sorted by descending overall score, entries of equal
  score in input order, with the ranks 1 to N in that order. That is what the code sorts
  and ranks for, and it holds whenever no category names a member inherited from
  \<^verbatim>\<open>Object.prototype\<close> (\<open>compareChannels_sorted_stable_ranked\<close>). A channel in such a
  category is analysed with success, but its score is \<^verbatim>\<open>NaN\<close>; the comparator returns
  \<^verbatim>\<open>NaN\<close> against it, which the sort takes for equal, and the batch of the scores 35,
  \<^verbatim>\<open>NaN\<close> and 70 is returned in its input order: rank 1 for the score 35, rank 3 for the
  score 70.
\<close>

theorem nan_score_left_unsorted:
  "\<exists>report. compareChannels nanBatch = Inr report
     \<and> map scoreOf (channels report) = [Num 35, NaN, Num 70]
     \<and> map rank (channels report) = [1, 2, 3]"
proof -
  let ?c1 = "spread_rank (analyzeChannel (Some lowChannel) None) 0"
  let ?c2 = "spread_rank (analyzeChannel (Some toStringChannel) None) 0"
  let ?c3 = "spread_rank (analyzeChannel (Some highChannel) None) 0"
  have s1: "scoreOf ?c1 = Num 35"
  proof -
    have "lowChannel = emptySnapshot\<lparr>username := Some ''a'', category := None,
                         ci_index := Some (3 / 100)\<rparr>"
      by (simp add: lowChannel_def emptySnapshot_def)
    from scoreOf_ci_only [OF this] show ?thesis
      by (simp add: spread_rank_fields or_str_def lookup_unknown Math_round_numeral)
  qed
  have s2: "scoreOf ?c2 = NaN"
  proof -
    have "toStringChannel = emptySnapshot\<lparr>username := Some ''b'',
                              category := Some ''toString'', ci_index := Some (3 / 100)\<rparr>"
      by (simp add: toStringChannel_def emptySnapshot_def)
    from scoreOf_ci_only [OF this] show ?thesis
      by (simp add: spread_rank_fields or_str_def lookup_toString)
  qed
  have s3: "scoreOf ?c3 = Num 70"
  proof -
    have "highChannel = emptySnapshot\<lparr>username := Some ''c'', category := None,
                          ci_index := Some (6 / 100)\<rparr>"
      by (simp add: highChannel_def emptySnapshot_def)
    from scoreOf_ci_only [OF this] show ?thesis
      by (simp add: spread_rank_fields or_str_def lookup_unknown Math_round_numeral)
  qed
  have ok: "metrics (spread_rank (analyzeChannel (Some c) None) 0) \<noteq> None
          \<and> qualityScore (spread_rank (analyzeChannel (Some c) None) 0) \<noteq> None
          \<and> priceEstimate (spread_rank (analyzeChannel (Some c) None) 0) \<noteq> None" for c
    using analyzeChannel_Some [of c None] by (auto simp add: spread_rank_fields)
  have c23: "compareByScore ?c2 ?c3 = Inr NaN"
    using ok by (simp add: compareByScore_scoreOf s2 s3)
  have c12: "compareByScore ?c1 ?c2 = Inr NaN"
    using ok by (simp add: compareByScore_scoreOf s1 s2)
  have srt: "Array_sort compareByScore
               (map (\<lambda>ch. spread_rank (analyzeChannel (info ch) (stats ch)) 0) nanBatch)
             = Inr [?c1, ?c2, ?c3]"
    by (simp add: nanBatch_def c23 c12)
  have "\<forall>c\<in>set [?c1, ?c2, ?c3]. metrics c \<noteq> None \<and> qualityScore c \<noteq> None
          \<and> priceEstimate c \<noteq> None"
    using ok by simp
  with srt have "\<exists>sm. compareChannels nanBatch
                        = Inr \<lparr> channels = assignRanks [?c1, ?c2, ?c3], summary = sm \<rparr>"
    by (rule compareChannels_report)
  then obtain sm where rep: "compareChannels nanBatch
                        = Inr \<lparr> channels = assignRanks [?c1, ?c2, ?c3], summary = sm \<rparr>" ..
  have "map scoreOf (assignRanks [?c1, ?c2, ?c3]) = map scoreOf [?c1, ?c2, ?c3]"
    by (rule map_assignRanks) (simp add: scoreOf_def)
  then have sc: "map scoreOf (assignRanks [?c1, ?c2, ?c3]) = [Num 35, NaN, Num 70]"
    by (simp only: list.map s1 s2 s3)
  have rk: "map rank (assignRanks [?c1, ?c2, ?c3]) = [1, 2, 3]"
    by (simp add: assignRanks_def)
  show ?thesis
    using rep sc rk
    by (intro exI [of _ "\<lparr> channels = assignRanks [?c1, ?c2, ?c3], summary = sm \<rparr>"]) simp
qed

end
